theory Spec2Isabelle
  imports Complex_Main "HOL-Library.Word" "HOL-Library.AList" "HOL-Library.Multiset"
begin

unbundle bit_operations_syntax

section \<open>JavaScript values used by the pipeline\<close>

text \<open>
  Strings are lists of code units below 256 (the type \<open>char\<close>); the texts the
  tokenizer sees are modelled on that alphabet. An argument that may be \<open>undefined\<close>
  is an \<open>option\<close>, \<open>None\<close> standing for \<open>undefined\<close>. An array is a list whose
  elements are options where the code can read or write past the end. Lengths, ids,
  \<open>numWords\<close> and \<open>seqLen\<close> are integers (\<open>int\<close>, which does not overflow).

  An element of an encoded sequence is the value of \<open>this.wordIndex[w] ?? 1\<close>. The
  object \<open>wordIndex\<close> is an object literal, so a read of a key it does not own
  continues on \<open>Object.prototype\<close>: \<open>JProto k\<close> is the member \<open>k\<close> found there
  (a function or an object, never \<open>null\<close> or \<open>undefined\<close>).
\<close>

datatype jsval = JNum int | JProto string

text \<open>A JavaScript number: \<open>NaN\<close>, the two infinities, or a finite value. Finite
  values are reals: rounding and the sign of zero are not modelled.\<close>

datatype jsnum = NaN | Num real | PInf | NInf

fun js_add :: "jsnum \<Rightarrow> jsnum \<Rightarrow> jsnum" where
  "js_add (Num a) (Num b) = Num (a + b)"
| "js_add NaN _ = NaN"
| "js_add _ NaN = NaN"
| "js_add PInf NInf = NaN"
| "js_add NInf PInf = NaN"
| "js_add PInf _ = PInf"
| "js_add _ PInf = PInf"
| "js_add NInf _ = NInf"
| "js_add _ NInf = NInf"

fun js_mul :: "jsnum \<Rightarrow> jsnum \<Rightarrow> jsnum" where
  "js_mul (Num a) (Num b) = Num (a * b)"
| "js_mul NaN _ = NaN"
| "js_mul _ NaN = NaN"
| "js_mul PInf (Num b) = (if b = 0 then NaN else if 0 < b then PInf else NInf)"
| "js_mul NInf (Num b) = (if b = 0 then NaN else if 0 < b then NInf else PInf)"
| "js_mul (Num a) PInf = (if a = 0 then NaN else if 0 < a then PInf else NInf)"
| "js_mul (Num a) NInf = (if a = 0 then NaN else if 0 < a then NInf else PInf)"
| "js_mul PInf PInf = PInf"
| "js_mul NInf NInf = PInf"
| "js_mul PInf NInf = NInf"
| "js_mul NInf PInf = NInf"

fun js_div :: "jsnum \<Rightarrow> jsnum \<Rightarrow> jsnum" where
  "js_div (Num a) (Num b) =
     (if b = 0 then (if a = 0 then NaN else if 0 < a then PInf else NInf) else Num (a / b))"
| "js_div (Num a) PInf = Num 0"
| "js_div (Num a) NInf = Num 0"
| "js_div PInf (Num b) = (if 0 \<le> b then PInf else NInf)"
| "js_div NInf (Num b) = (if 0 \<le> b then NInf else PInf)"
| "js_div _ _ = NaN"

text \<open>\<open>x >= y\<close>: false as soon as one side is \<open>NaN\<close>.\<close>

fun js_ge :: "jsnum \<Rightarrow> jsnum \<Rightarrow> bool" where
  "js_ge (Num a) (Num b) = (b \<le> a)"
| "js_ge NaN _ = False"
| "js_ge _ NaN = False"
| "js_ge PInf _ = True"
| "js_ge _ NInf = True"
| "js_ge _ _ = False"

text \<open>The errors the modules throw, by the place that throws them.\<close>

datatype error =
    ConfigError          \<comment> \<open>\<open>createModel\<close> throws over its hyperparameters: rnn.js 22, or
                              the library's rejection of the layer arguments (lines 29 to 51)\<close>
  | NotReadyError        \<comment> \<open>rnn.js 73, 98, 137: no current model\<close>
  | NotFittedError       \<comment> \<open>data-loader.js 69: "Tokenizer not fitted."\<close>
  | EmptyDataset         \<comment> \<open>data-loader.js 156\<close>
  | LengthMismatch       \<comment> \<open>data-loader.js 157\<close>
  | LoadError            \<comment> \<open>rnn.js 248: every failure inside loadModel\<close>
  | TypeError            \<comment> \<open>a method called on \<open>undefined\<close>\<close>
  | RangeError           \<comment> \<open>\<open>new Array(NaN)\<close>: invalid array length\<close>
  | LibraryError         \<comment> \<open>an exception raised inside TensorFlow.js\<close>

section \<open>data-loader.js: the tokenizer\<close>

subsection \<open>Strings\<close>

text \<open>\<open>\s\<close> on code units below 256: TAB, LF, VT, FF, CR, SPACE and NBSP.\<close>

definition is_space :: "char \<Rightarrow> bool" where
  "is_space c = (of_char c \<in> {9, 10, 11, 12, 13, 32, 160 :: nat})"

text \<open>The class \<open>[a-z0-9']\<close>.\<close>

definition is_word_char :: "char \<Rightarrow> bool" where
  "is_word_char c =
     (let n = of_char c :: nat
      in (97 \<le> n \<and> n \<le> 122) \<or> (48 \<le> n \<and> n \<le> 57) \<or> n = 39)"

text \<open>\<open>toLowerCase\<close> on one code unit below 256: A-Z and the Latin-1 capitals.\<close>

definition toLowerCase_char :: "char \<Rightarrow> char" where
  "toLowerCase_char c =
     (let n = of_char c :: nat
      in if (65 \<le> n \<and> n \<le> 90) \<or> (192 \<le> n \<and> n \<le> 222 \<and> n \<noteq> 215)
         then char_of (n + 32) else c)"

definition toLowerCase :: "string \<Rightarrow> string" where
  "toLowerCase s = map toLowerCase_char s"

text \<open>\<open>s.replace(/[P]+/g, " ")\<close>: every maximal run of characters in the class
  becomes one space.\<close>

function replace_runs :: "(char \<Rightarrow> bool) \<Rightarrow> string \<Rightarrow> string" where
  "replace_runs P [] = []"
| "replace_runs P (c # cs) =
     (if P c then CHR '' '' # replace_runs P (dropWhile P cs)
      else c # replace_runs P cs)"
  by pat_completeness auto
termination
  by (relation "measure (\<lambda>(P, cs). length cs)")
     (auto simp: length_dropWhile_le less_Suc_eq_le)

definition trim :: "string \<Rightarrow> string" where
  "trim s = rev (dropWhile is_space (rev (dropWhile is_space s)))"

text \<open>\<open>s.split(" ")\<close>: the pieces between single spaces; the empty string gives
  one empty piece.\<close>

fun split_sp :: "string \<Rightarrow> string list" where
  "split_sp [] = [[]]"
| "split_sp (c # cs) =
     (if c = CHR '' '' then [] # split_sp cs
      else (case split_sp cs of [] \<Rightarrow> [[c]] | w # ws \<Rightarrow> (c # w) # ws))"

text \<open>\<open>ws.join(" ")\<close>.\<close>

fun join_sp :: "string list \<Rightarrow> string" where
  "join_sp [] = []"
| "join_sp [w] = w"
| "join_sp (w # ws) = w @ CHR '' '' # join_sp ws"

subsection \<open>The Tokenizer class\<close>

record Tokenizer =
  numWords :: int
  removeStopwords :: bool
  wordIndex :: "(string \<times> int) list"   \<comment> \<open>own properties, in insertion order\<close>
  indexWord :: "(int \<times> string) list"
  fitted :: bool
  vocabSize :: "nat option"               \<comment> \<open>\<open>undefined\<close> until \<open>fitOnTexts\<close>\<close>

definition stop_words :: "string list" where
  "stop_words =
    [''a'', ''an'', ''the'', ''and'', ''or'', ''if'', ''in'', ''on'', ''for'', ''to'', ''from'',
     ''is'', ''are'', ''was'', ''were'', ''be'', ''been'', ''being'', ''of'', ''with'', ''it'',
     ''this'', ''that'', ''these'', ''those'', ''at'', ''by'', ''as'', ''but'', ''what'', ''which'',
     ''who'', ''whom'', ''into'', ''out'', ''up'', ''down'', ''over'', ''under'', ''again'', ''further'',
     ''then'', ''once'', ''here'', ''there'', ''when'', ''where'', ''why'', ''how'', ''all'', ''any'',
     ''both'', ''each'', ''few'', ''more'', ''most'', ''other'', ''some'', ''such'', ''no'', ''nor'',
     ''not'', ''only'', ''own'', ''same'', ''so'', ''than'', ''too'', ''very'', ''can'', ''will'', ''just'',
     ''don'', ''should'', ''now'', ''i'', ''me'', ''my'', ''myself'', ''we'', ''our'', ''ours'', ''ourselves'',
     ''you'', ''your'', ''yours'', ''yourself'', ''yourselves'', ''he'', ''him'', ''his'', ''himself'',
     ''she'', ''her'', ''hers'', ''herself'', ''itself'', ''they'', ''them'', ''their'', ''theirs'',
     ''themselves'', ''do'', ''did'', ''does'', ''doing'', ''have'', ''has'', ''had'', ''having'']"

text \<open>The constructor, with the defaults of its destructured argument.\<close>

definition new_Tokenizer :: "int option \<Rightarrow> bool option \<Rightarrow> Tokenizer" where
  "new_Tokenizer numWords_arg removeStopwords_arg =
     \<lparr> numWords = (case numWords_arg of None \<Rightarrow> 20000 | Some n \<Rightarrow> n),
       removeStopwords = (case removeStopwords_arg of None \<Rightarrow> False | Some b \<Rightarrow> b),
       wordIndex = [(''<PAD>'', 0), (''<OOV>'', 1)],
       indexWord = [(0, ''<PAD>''), (1, ''<OOV>'')],
       fitted = False,
       vocabSize = None \<rparr>"

text \<open>\<open>_normalize\<close>. \<open>None\<close> is a value that is not a string.\<close>

definition normalize_text :: "Tokenizer \<Rightarrow> string option \<Rightarrow> string" where
  "normalize_text tk text =
     (case text of
        None \<Rightarrow> []
      | Some t \<Rightarrow>
          if t = [] then []
          else
            let lowered = toLowerCase t;
                stripped = trim (replace_runs is_space
                  (replace_runs (\<lambda>c. \<not> is_word_char c \<and> \<not> is_space c) lowered))
            in if \<not> removeStopwords tk then stripped
               else join_sp (filter (\<lambda>w. w \<noteq> [] \<and> w \<notin> set stop_words) (split_sp stripped)))"

subsection \<open>padSequences\<close>

text \<open>\<open>s.slice(0, e)\<close>: a negative end counts from the end of the array.\<close>

definition slice0 :: "'a list \<Rightarrow> int \<Rightarrow> 'a list" where
  "slice0 s e = (if e < 0 then take (nat (int (length s) + e)) s else take (nat e) s)"

definition padSequences :: "jsval list list \<Rightarrow> int option \<Rightarrow> jsval list list" where
  "padSequences sequences seqLen_arg =
     (let seqLen = (case seqLen_arg of None \<Rightarrow> 100 | Some n \<Rightarrow> n)
      in map (\<lambda>s. if seqLen \<le> int (length s) then slice0 s seqLen
                  else s @ replicate (nat (seqLen - int (length s))) (JNum 0))
           sequences)"

subsection \<open>fitOnTexts\<close>

text \<open>
  The frequency table is a \<open>Map\<close>: an association list in insertion order, where
  \<open>set\<close> on a present key keeps its place and on a new key appends
  (\<open>AList.update\<close>). \<open>freq.set(w, (freq.get(w) || 0) + 1)\<close>:
\<close>

definition freq_incr :: "(string \<times> nat) list \<Rightarrow> string \<Rightarrow> (string \<times> nat) list" where
  "freq_incr freq w =
     AList.update w ((case map_of freq w of None \<Rightarrow> 0 | Some c \<Rightarrow> c) + 1) freq"

text \<open>The body of the loop over the texts (lines 46 to 51).\<close>

definition count_text ::
  "Tokenizer \<Rightarrow> (string \<times> nat) list \<Rightarrow> string option \<Rightarrow> (string \<times> nat) list" where
  "count_text tk freq t =
     (let norm = normalize_text tk t
      in if norm = [] then freq
         else fold (\<lambda>w f. if w = [] then f else freq_incr f w) (split_sp norm) freq)"

definition word_freq :: "Tokenizer \<Rightarrow> string option list \<Rightarrow> (string \<times> nat) list" where
  "word_freq tk texts = fold (\<lambda>t f. count_text tk f t) texts []"

text \<open>The loop of lines 58 to 63; both tables are objects, written by key.\<close>

fun assign_ids ::
  "string list \<Rightarrow> int \<Rightarrow> (string \<times> int) list \<Rightarrow> (int \<times> string) list
    \<Rightarrow> (string \<times> int) list \<times> (int \<times> string) list" where
  "assign_ids [] idx wi iw = (wi, iw)"
| "assign_ids (w # ws) idx wi iw =
     assign_ids ws (idx + 1) (AList.update w idx wi) (AList.update idx w iw)"

text \<open>
  \<open>Array.prototype.sort\<close> is stable, and the comparator \<open>b[1] - a[1]\<close> orders the
  entries by count, larger first: the result is the stable sort on the negated count
  (\<open>sort_key\<close> is a stable insertion sort). \<open>Object.keys(o).length\<close> is the number
  of own keys.
\<close>

definition fitOnTexts :: "Tokenizer \<Rightarrow> string option list \<Rightarrow> Tokenizer" where
  "fitOnTexts tk texts =
     (let freq = word_freq tk texts;
          sorted = sort_key (\<lambda>e. - int (snd e)) freq;
          limit = max 0 (numWords tk - 2);
          top = map fst (slice0 sorted limit);
          (wi, iw) = assign_ids top 2 (wordIndex tk) (indexWord tk)
      in tk\<lparr> wordIndex := wi, indexWord := iw,
              vocabSize := Some (length wi), fitted := True \<rparr>)"

subsection \<open>textsToSequences\<close>

text \<open>The names \<open>Object.prototype\<close> defines; a read of one of them on an object
  that does not own the key finds the inherited member.\<close>

definition object_prototype_keys :: "string list" where
  "object_prototype_keys =
    [''constructor'', ''hasOwnProperty'', ''isPrototypeOf'', ''propertyIsEnumerable'',
     ''toLocaleString'', ''toString'', ''valueOf'', ''__proto__'',
     ''__defineGetter__'', ''__defineSetter__'', ''__lookupGetter__'', ''__lookupSetter__'']"

text \<open>\<open>o[k]\<close> on an object literal with the own properties \<open>own\<close>; \<open>None\<close> is
  \<open>undefined\<close>.\<close>

definition obj_get :: "(string \<times> int) list \<Rightarrow> string \<Rightarrow> jsval option" where
  "obj_get own k =
     (case map_of own k of
        Some v \<Rightarrow> Some (JNum v)
      | None \<Rightarrow> if k \<in> set object_prototype_keys then Some (JProto k) else None)"

definition textsToSequences :: "Tokenizer \<Rightarrow> string option list \<Rightarrow> error + jsval list list" where
  "textsToSequences tk texts =
     (if \<not> fitted tk then Inl NotFittedError
      else Inr (map (\<lambda>t.
             let norm = normalize_text tk t
             in if norm = [] then []
                else map (\<lambda>w. case obj_get (wordIndex tk) w of None \<Rightarrow> JNum 1 | Some v \<Rightarrow> v)
                       (split_sp norm))
           texts))"

section \<open>data-loader.js: the dataset preparer\<close>

subsection \<open>shuffleInPlace\<close>

text \<open>
  One call of the closure \<open>mulberry32(seed)\<close> returns: the state \<open>s\<close> is a number
  that only grows; the bitwise operators and \<open>Math.imul\<close> read their operands
  modulo \<open>2^32\<close>, and \<open>>>> 0\<close> reads the result unsigned. The sums stay below
  \<open>2^53\<close> for arrays of fewer than \<open>2^21\<close> elements, where the numbers of the
  source are exact; the model is the source on those.
\<close>

definition mulberry32 :: "int \<Rightarrow> int \<times> real" where
  "mulberry32 s =
     (let s' = s + 0x6d2b79f5;
          t0 = (word_of_int s' :: 32 word);
          t1 = (t0 XOR drop_bit 15 t0) * (t0 OR 1);
          t2 = t1 XOR (t1 + (t1 XOR drop_bit 7 t1) * (t1 OR 61))
      in (s', real (unat (t2 XOR drop_bit 14 t2)) / 4294967296))"

text \<open>Reads and writes of an array by index: a read past the end is \<open>undefined\<close>,
  a write past the end extends the array with holes.\<close>

definition js_get :: "'a option list \<Rightarrow> nat \<Rightarrow> 'a option" where
  "js_get xs i = (if i < length xs then xs ! i else None)"

definition js_set :: "'a option list \<Rightarrow> nat \<Rightarrow> 'a option \<Rightarrow> 'a option list" where
  "js_set xs i v =
     (if i < length xs then xs[i := v] else xs @ replicate (i - length xs) None @ [v])"

text \<open>\<open>[a[i], a[j]] = [a[j], a[i]]\<close>: both reads, then the write at \<open>i\<close>, then
  the write at \<open>j\<close>.\<close>

definition js_swap :: "'a option list \<Rightarrow> nat \<Rightarrow> nat \<Rightarrow> 'a option list" where
  "js_swap a i j =
     (let vj = js_get a j; vi = js_get a i
      in js_set (js_set a i vj) j vi)"

text \<open>The loop \<open>for (let i = a.length - 1; i > 0; i--)\<close>, by its counter.\<close>

fun shuffle_loop ::
  "nat \<Rightarrow> int \<Rightarrow> 'a option list \<Rightarrow> 'b option list \<Rightarrow> 'a option list \<times> 'b option list" where
  "shuffle_loop 0 s a b = (a, b)"
| "shuffle_loop (Suc k) s a b =
     (let i = Suc k;
          (s', r) = mulberry32 s;
          j = nat \<lfloor>r * real (i + 1)\<rfloor>
      in shuffle_loop k s' (js_swap a i j) (js_swap b i j))"

definition shuffleInPlace ::
  "'a option list \<Rightarrow> 'b option list \<Rightarrow> int option \<Rightarrow> 'a option list \<times> 'b option list" where
  "shuffleInPlace a b seed_arg =
     shuffle_loop (length a - 1) (case seed_arg of None \<Rightarrow> 1337 | Some s \<Rightarrow> s) a b"

subsection \<open>prepareTensors\<close>

record tokenizerMeta =
  meta_wordIndex :: "(string \<times> int) list"
  meta_indexWord :: "(int \<times> string) list"
  meta_vocabSize :: "nat option"
  meta_seqLen :: int
  meta_removeStopwords :: bool
  meta_maxVocab :: int

text \<open>The returned object. A tensor is the nested list of values it was built
  from.\<close>

record prepared =
  prep_X_train :: "jsval list list"
  prep_y_train :: "int option list"
  prep_X_test :: "jsval list list"
  prep_y_test :: "int option list"
  prep_tokenizerMeta :: tokenizerMeta
  prep_tokenizer :: Tokenizer
  counts_nTrain :: int
  counts_nTest :: int
  counts_N :: int

text \<open>\<open>s.slice(b)\<close>: a negative start counts from the end of the array.\<close>

definition slice_from :: "'a list \<Rightarrow> int \<Rightarrow> 'a list" where
  "slice_from s b = (if b < 0 then drop (nat (int (length s) + b)) s else drop (nat b) s)"

text \<open>
  \<open>seqLen\<close> as the page passes it: the result of \<open>parseInt\<close>, an integer or
  \<open>NaN\<close>.
\<close>

datatype jsint = IntNaN | IntVal int

text \<open>
  What the function asks of its surroundings is a parameter: whether
  \<open>tf.tensor2d(values, [rows, seqLen], "int32")\<close> and \<open>tf.tensor1d(values, "int32")\<close>
  accept their arguments (they throw on a shape that does not fit the values), and
  the value of \<open>Math.floor(N * testSplit)\<close> as the double-precision product gives
  it.
\<close>

record runtime =
  tensor2d_ok :: "jsval list list \<Rightarrow> nat \<Rightarrow> int \<Rightarrow> bool"
  tensor1d_ok :: "int option list \<Rightarrow> bool"
  floor_mul :: "int \<Rightarrow> real \<Rightarrow> int"

text \<open>
  The arrays \<open>texts\<close> and \<open>labels\<close> are the caller's; the function returns its
  result (or the error it throws) together with the contents of both arrays when it
  returns or throws. After the validation the array of sequences is not empty, so
  with \<open>seqLen = NaN\<close> the first row of \<open>padSequences\<close> reaches
  \<open>new Array(NaN - s.length)\<close>, which throws; the four tensors are built in the
  order of lines 181 to 184, and the first one the library refuses throws.
\<close>

definition prepareTensors ::
  "runtime \<Rightarrow> string option list \<Rightarrow> int option list \<Rightarrow> jsint option \<Rightarrow> int option
    \<Rightarrow> bool option \<Rightarrow> real option
    \<Rightarrow> (error + prepared) \<times> string option list \<times> int option list" where
  "prepareTensors rt texts labels seqLen_arg maxVocab_arg removeStopwords_arg testSplit_arg =
     (let seqLen = (case seqLen_arg of None \<Rightarrow> IntVal 100 | Some n \<Rightarrow> n);
          maxVocab = (case maxVocab_arg of None \<Rightarrow> 20000 | Some n \<Rightarrow> n);
          removeStopwords = (case removeStopwords_arg of None \<Rightarrow> False | Some b \<Rightarrow> b);
          testSplit = (case testSplit_arg of None \<Rightarrow> 2 / 10 | Some x \<Rightarrow> x)
      in if texts = [] \<or> labels = [] then (Inl EmptyDataset, texts, labels)
         else if length texts \<noteq> length labels then (Inl LengthMismatch, texts, labels)
         else
           let (texts', labels') = shuffleInPlace texts labels None;
               tokenizer = fitOnTexts (new_Tokenizer (Some maxVocab) (Some removeStopwords)) texts'
           in case textsToSequences tokenizer texts' of
                Inl e \<Rightarrow> (Inl e, texts', labels')
              | Inr seqs \<Rightarrow>
                 (case seqLen of
                    IntNaN \<Rightarrow> (Inl RangeError, texts', labels')
                  | IntVal n \<Rightarrow>
                      let padded = padSequences seqs (Some n);
                          N = int (length padded);
                          nTest = max 1 (floor_mul rt N testSplit);
                          nTrain = N - nTest;
                          xTrain = slice0 padded nTrain;
                          xTest = slice_from padded nTrain;
                          yTrain = slice0 labels' nTrain;
                          yTest = slice_from labels' nTrain
                      in if \<not> tensor2d_ok rt xTrain (length xTrain) n
                            \<or> \<not> tensor1d_ok rt yTrain
                            \<or> \<not> tensor2d_ok rt xTest (length xTest) n
                            \<or> \<not> tensor1d_ok rt yTest
                         then (Inl LibraryError, texts', labels')
                         else
                          (Inr \<lparr> prep_X_train = xTrain,
                                 prep_y_train = yTrain,
                                 prep_X_test = xTest,
                                 prep_y_test = yTest,
                                 prep_tokenizerMeta =
                                   \<lparr> meta_wordIndex = wordIndex tokenizer,
                                     meta_indexWord = indexWord tokenizer,
                                     meta_vocabSize = vocabSize tokenizer,
                                     meta_seqLen = n,
                                     meta_removeStopwords = Tokenizer.removeStopwords tokenizer,
                                     meta_maxVocab = maxVocab \<rparr>,
                                 prep_tokenizer = tokenizer,
                                 counts_nTrain = nTrain, counts_nTest = nTest, counts_N = N \<rparr>,
                           texts', labels')))"

section \<open>rnn.js: the model and its operations\<close>

text \<open>An argument of \<open>createModel\<close> that the guard of line 22 tests: numbers are
  the integers the callers pass (\<open>parseInt\<close> results and key counts).\<close>

datatype jsarg = JUndefined | JNull | JNaN | JInt int

text \<open>\<open>!x\<close> is false exactly on these.\<close>

fun truthy :: "jsarg \<Rightarrow> bool" where
  "truthy (JInt n) = (n \<noteq> 0)"
| "truthy _ = False"

text \<open>
  The layer configurations handed to the library. The initializers,
  \<open>returnSequences: false\<close> and \<open>recurrentDropout: 0\<close> are constants of the source
  and are left out.
\<close>

datatype layer =
    Embedding jsarg int jsarg      \<comment> \<open>inputDim, outputDim, inputLength\<close>
  | GRU int real                   \<comment> \<open>units, dropout\<close>
  | Bidirectional layer string     \<comment> \<open>layer, mergeMode\<close>
  | Dense int string               \<comment> \<open>units, activation\<close>

text \<open>A model object of the library: \<open>compiled\<close> records the \<open>model.compile\<close> of
  lines 53 to 57 (adam, binaryCrossentropy, accuracy).\<close>

record model =
  model_id :: nat
  layers :: "layer list"
  compiled :: bool

record modelData =
  md_modelTopology :: "layer list option"
  md_weightSpecs :: bool                 \<comment> \<open>present and truthy\<close>
  md_weightData :: "nat list option"
  md_tokenizerMeta :: "tokenizerMeta option"

datatype upload = NoFile | BadJson | Json modelData

text \<open>
  What \<open>tf.sequential\<close>, the layer constructors, the \<open>add\<close> calls and \<open>compile\<close>
  of lines 28 to 57 do with the layer arguments: they build the model, they throw
  because they refuse an argument (the library validates the arguments of a layer), or
  they throw for another reason.
\<close>

datatype build_result = Built | InvalidArguments | BuildFailure

text \<open>
  TensorFlow.js is not part of the repository: what it answers is a parameter.
  \<open>tf_build\<close> is the outcome of building the layers, \<open>tf_load_ok\<close> says whether
  \<open>tf.loadLayersModel\<close> accepts the artifacts; \<open>tf_predict\<close> and \<open>tf_evaluate\<close>
  are the data of the tensors that \<open>predict\<close> and \<open>evaluate\<close> return, \<open>None\<close>
  when the library throws.
\<close>

record tfjs =
  tf_build :: "layer list \<Rightarrow> build_result"
  tf_load_ok :: "modelData \<Rightarrow> bool"
  tf_predict :: "model \<Rightarrow> jsval list list \<Rightarrow> jsnum list option"
  tf_evaluate :: "model \<Rightarrow> jsval list list \<Rightarrow> int list \<Rightarrow> jsnum list option"

text \<open>
  The module state (lines 4 and 5), with the library's memory beside it: \<open>live\<close> are
  the ids of the models that were built and not disposed, \<open>next_id\<close> the id of the
  next model built.
\<close>

record rnn_state =
  currentModel :: "model option"
  currentBackend :: "string option"
  live :: "nat list"
  next_id :: nat

text \<open>\<open>m.dispose()\<close> releases the model; an exception it raises is caught and
  dropped at both call sites.\<close>

definition dispose :: "model \<Rightarrow> rnn_state \<Rightarrow> rnn_state" where
  "dispose m s = s\<lparr> live := removeAll (model_id m) (live s) \<rparr>"

record createModel_args =
  arg_vocabSize :: jsarg
  arg_seqLen :: jsarg
  arg_embedDim :: "int option"
  arg_gruUnits :: "int option"
  arg_dropout :: "real option"
  arg_bidirectional :: "bool option"

definition createModel ::
  "tfjs \<Rightarrow> createModel_args \<Rightarrow> rnn_state \<Rightarrow> (error + model) \<times> rnn_state" where
  "createModel tf args s =
     (let vocabSize = arg_vocabSize args;
          seqLen = arg_seqLen args;
          embedDim = (case arg_embedDim args of None \<Rightarrow> 64 | Some n \<Rightarrow> n);
          gruUnits = (case arg_gruUnits args of None \<Rightarrow> 128 | Some n \<Rightarrow> n);
          dropout = (case arg_dropout args of None \<Rightarrow> 2 / 10 | Some x \<Rightarrow> x);
          bidirectional = (case arg_bidirectional args of None \<Rightarrow> False | Some b \<Rightarrow> b)
      in if \<not> truthy vocabSize \<or> \<not> truthy seqLen then (Inl ConfigError, s)
         else
           let s1 = (case currentModel s of
                       Some m \<Rightarrow> (dispose m s)\<lparr> currentModel := None \<rparr>
                     | None \<Rightarrow> s);
               gruLayer = GRU gruUnits dropout;
               ls = [Embedding vocabSize embedDim seqLen,
                     (if bidirectional then Bidirectional gruLayer ''concat'' else gruLayer),
                     Dense 1 ''sigmoid'']
           in case tf_build tf ls of
                InvalidArguments \<Rightarrow> (Inl ConfigError, s1)
              | BuildFailure \<Rightarrow> (Inl LibraryError, s1)
              | Built \<Rightarrow>
                  let m = \<lparr> model_id = next_id s1, layers = ls, compiled = True \<rparr>
                  in (Inr m, s1\<lparr> currentModel := Some m,
                                live := model_id m # live s1,
                                next_id := next_id s1 + 1 \<rparr>))"

text \<open>The layer arguments of lines 29 to 51, as \<open>createModel\<close> hands them to the
  library.\<close>

definition requested_layers :: "createModel_args \<Rightarrow> layer list" where
  "requested_layers args =
     [Embedding (arg_vocabSize args)
        (case arg_embedDim args of None \<Rightarrow> 64 | Some n \<Rightarrow> n) (arg_seqLen args),
      (if (case arg_bidirectional args of None \<Rightarrow> False | Some b \<Rightarrow> b)
       then Bidirectional (GRU (case arg_gruUnits args of None \<Rightarrow> 128 | Some n \<Rightarrow> n)
                               (case arg_dropout args of None \<Rightarrow> 2 / 10 | Some x \<Rightarrow> x)) ''concat''
       else GRU (case arg_gruUnits args of None \<Rightarrow> 128 | Some n \<Rightarrow> n)
                (case arg_dropout args of None \<Rightarrow> 2 / 10 | Some x \<Rightarrow> x)),
      Dense 1 ''sigmoid'']"

text \<open>A size the architecture can have: a number above 0.\<close>

fun positive_size :: "jsarg \<Rightarrow> bool" where
  "positive_size (JInt n) = (0 < n)"
| "positive_size _ = False"


text \<open>\<open>loadModel\<close>: every exception inside the \<open>try\<close> is rethrown as one error.\<close>

definition loadModel ::
  "tfjs \<Rightarrow> upload \<Rightarrow> rnn_state \<Rightarrow> (error + model \<times> tokenizerMeta) \<times> rnn_state" where
  "loadModel tf file s =
     (case file of
        NoFile \<Rightarrow> (Inl LoadError, s)
      | BadJson \<Rightarrow> (Inl LoadError, s)
      | Json md \<Rightarrow>
          (case (md_modelTopology md, md_weightSpecs md, md_weightData md) of
             (Some topology, True, Some weightData) \<Rightarrow>
               (case md_tokenizerMeta md of
                  None \<Rightarrow> (Inl LoadError, s)
                | Some meta \<Rightarrow>
                    if \<not> tf_load_ok tf md then (Inl LoadError, s)
                    else
                      let m = \<lparr> model_id = next_id s, layers = topology, compiled = False \<rparr>
                      in (Inr (m, meta), s\<lparr> currentModel := Some m,
                                            live := model_id m # live s,
                                            next_id := next_id s + 1 \<rparr>))
           | _ \<Rightarrow> (Inl LoadError, s)))"

definition disposeModel :: "rnn_state \<Rightarrow> rnn_state" where
  "disposeModel s =
     (case currentModel s of
        Some m \<Rightarrow> (dispose m s)\<lparr> currentModel := None \<rparr>
      | None \<Rightarrow> s)"

subsection \<open>predictText\<close>

record prediction =
  prob :: jsnum
  pred :: "int option"       \<comment> \<open>\<open>None\<close> is \<open>null\<close>\<close>

text \<open>\<open>prob.dataSync()[0]\<close>; on an empty array the value is \<open>undefined\<close>, which
  compares like \<open>NaN\<close> and is \<open>NaN\<close> here.\<close>

definition first_value :: "jsnum list \<Rightarrow> jsnum" where
  "first_value ps = (case ps of [] \<Rightarrow> NaN | p # _ \<Rightarrow> p)"

definition predictText ::
  "tfjs \<Rightarrow> string option \<Rightarrow> tokenizerMeta \<Rightarrow> Tokenizer \<Rightarrow> jsnum option \<Rightarrow> rnn_state
    \<Rightarrow> error + prediction" where
  "predictText tf text meta tokenizer threshold_arg s =
     (let threshold = (case threshold_arg of None \<Rightarrow> Num (1 / 2) | Some x \<Rightarrow> x)
      in case currentModel s of
           None \<Rightarrow> Inl NotReadyError
         | Some m \<Rightarrow>
             if text = None \<or> text = Some [] then Inr \<lparr> prob = NaN, pred = None \<rparr>
             else
               (case textsToSequences tokenizer [text] of
                  Inl e \<Rightarrow> Inl e
                | Inr seq \<Rightarrow>
                    let padded = padSequences seq (Some (meta_seqLen meta))
                    in case tf_predict tf m padded of
                         None \<Rightarrow> Inl LibraryError
                       | Some ps \<Rightarrow>
                           let p = first_value ps
                           in Inr \<lparr> prob = p,
                                    pred = Some (if js_ge p threshold then 1 else 0) \<rparr>))"

subsection \<open>evaluateModel\<close>

record evaluation =
  loss :: jsnum
  accuracy :: jsnum
  yTrue :: "int list"
  yPred :: "int list"
  yProb :: "jsnum list"
  cm_tp :: nat
  cm_tn :: nat
  cm_fp :: nat
  cm_fn :: nat
  precision :: jsnum
  recall :: jsnum
  f1 :: jsnum

text \<open>The body of the loop of lines 111 to 116; \<open>yPred[i]\<close> past the end is
  \<open>undefined\<close> and matches no branch.\<close>

definition cm_step ::
  "int list \<Rightarrow> int list \<Rightarrow> nat \<Rightarrow> nat \<times> nat \<times> nat \<times> nat \<Rightarrow> nat \<times> nat \<times> nat \<times> nat" where
  "cm_step ts ps i c =
     (case c of (tp, tn, fp, fn) \<Rightarrow>
        let t = ts ! i;
            p = (if i < length ps then Some (ps ! i) else None)
        in if t = 1 \<and> p = Some 1 then (tp + 1, tn, fp, fn)
           else if t = 0 \<and> p = Some 0 then (tp, tn + 1, fp, fn)
           else if t = 0 \<and> p = Some 1 then (tp, tn, fp + 1, fn)
           else if t = 1 \<and> p = Some 0 then (tp, tn, fp, fn + 1)
           else (tp, tn, fp, fn))"

definition confusion :: "int list \<Rightarrow> int list \<Rightarrow> nat \<times> nat \<times> nat \<times> nat" where
  "confusion ts ps = fold (cm_step ts ps) [0..<length ts] (0, 0, 0, 0)"

definition evaluateModel ::
  "tfjs \<Rightarrow> jsval list list \<Rightarrow> int list \<Rightarrow> jsnum option \<Rightarrow> rnn_state \<Rightarrow> error + evaluation" where
  "evaluateModel tf X_test y_test threshold_arg s =
     (let threshold = (case threshold_arg of None \<Rightarrow> Num (1 / 2) | Some x \<Rightarrow> x)
      in case currentModel s of
           None \<Rightarrow> Inl NotReadyError
         | Some m \<Rightarrow>
            (case tf_evaluate tf m X_test y_test of
               None \<Rightarrow> Inl LibraryError
             | Some [] \<Rightarrow> Inl TypeError
             | Some [l] \<Rightarrow> Inl TypeError
             | Some (l # a # _) \<Rightarrow>
                (case tf_predict tf m X_test of
                   None \<Rightarrow> Inl LibraryError
                 | Some probs \<Rightarrow>
                     let ts = y_test;
                         ps = map (\<lambda>p. if js_ge p threshold then 1 else 0) probs;
                         (tp, tn, fp, fn) = confusion ts ps;
                         prec = (if tp + fp = 0 then Num 0
                                 else js_div (Num (real tp)) (Num (real (tp + fp))));
                         rec = (if tp + fn = 0 then Num 0
                                else js_div (Num (real tp)) (Num (real (tp + fn))));
                         f = (if js_add prec rec = Num 0 then Num 0
                              else js_div (js_mul (js_mul (Num 2) prec) rec) (js_add prec rec))
                     in Inr \<lparr> loss = l, accuracy = a, yTrue = ts, yPred = ps, yProb = probs,
                              cm_tp = tp, cm_tn = tn, cm_fp = fp, cm_fn = fn,
                              precision = prec, recall = rec, f1 = f \<rparr>)))"

section \<open>The vocabulary in the words of the specification\<close>

text \<open>
  The tokens of a corpus, in reading order: the non-empty pieces of every normalized
  text. \<open>first_seen\<close> keeps the first occurrence of every element, in order;
  \<open>freq_table\<close> pairs each distinct token, in first-seen order, with its number
  of occurrences.
\<close>

definition corpus_tokens :: "Tokenizer \<Rightarrow> string option list \<Rightarrow> string list" where
  "corpus_tokens tk texts =
     concat (map (\<lambda>t. filter (\<lambda>w. w \<noteq> []) (split_sp (normalize_text tk t))) texts)"

definition first_seen :: "'a list \<Rightarrow> 'a list" where
  "first_seen xs = rev (remdups (rev xs))"

definition freq_table :: "string list \<Rightarrow> (string \<times> nat) list" where
  "freq_table toks = map (\<lambda>w. (w, count_list toks w)) (first_seen toks)"

section \<open>The permutation of the shuffle\<close>

text \<open>
  The Fisher-Yates pass of \<open>shuffleInPlace\<close> on a list of indices alone: from the
  last index down, the element at \<open>i\<close> is exchanged with the one at the drawn
  \<open>j\<close>. \<open>shuffle_perm seed n\<close> is the arrangement of \<open>0..n-1\<close> it leaves; it
  depends on the seed and the length only.
\<close>

fun perm_loop :: "nat \<Rightarrow> int \<Rightarrow> nat list \<Rightarrow> nat list" where
  "perm_loop 0 s p = p"
| "perm_loop (Suc k) s p =
     (let i = Suc k;
          (s', r) = mulberry32 s;
          j = nat \<lfloor>r * real (i + 1)\<rfloor>
      in perm_loop k s' (p[i := p ! j, j := p ! i]))"

definition shuffle_perm :: "int \<Rightarrow> nat \<Rightarrow> nat list" where
  "shuffle_perm seed n = perm_loop (n - 1) seed [0..<n]"

text \<open>The unsigned 32-bit value that one call of the generator divides by \<open>2^32\<close>.\<close>

definition mulberry32_bits :: "int \<Rightarrow> 32 word" where
  "mulberry32_bits s =
     (let t0 = (word_of_int (s + 0x6d2b79f5) :: 32 word);
          t1 = (t0 XOR drop_bit 15 t0) * (t0 OR 1);
          t2 = t1 XOR (t1 + (t1 XOR drop_bit 7 t1) * (t1 OR 61))
      in t2 XOR drop_bit 14 t2)"

section \<open>Example inputs\<close>

text \<open>The module state when the page has loaded.\<close>

definition init_state :: rnn_state where
  "init_state = \<lparr> currentModel = None, currentBackend = None, live = [], next_id = 0 \<rparr>"

text \<open>A library that accepts every request and whose models answer \<open>p\<close> on every
  row, one that fails on every request, and one that builds exactly the models whose
  embedding sizes are above 0.\<close>

definition tf_answering :: "jsnum \<Rightarrow> tfjs" where
  "tf_answering p =
     \<lparr> tf_build = (\<lambda>ls. Built), tf_load_ok = (\<lambda>md. True),
       tf_predict = (\<lambda>m X. Some (map (\<lambda>row. p) X)),
       tf_evaluate = (\<lambda>m X y. Some [Num 0, Num 1]) \<rparr>"

definition tf_failing :: tfjs where
  "tf_failing =
     \<lparr> tf_build = (\<lambda>ls. BuildFailure), tf_load_ok = (\<lambda>md. False),
       tf_predict = (\<lambda>m X. None), tf_evaluate = (\<lambda>m X y. None) \<rparr>"


text \<open>Surroundings of \<open>prepareTensors\<close> in which a tensor is built when the values
  fit the shape, and the product is exact.\<close>

definition rt_demo :: runtime where
  "rt_demo =
     \<lparr> tensor2d_ok = (\<lambda>values rows n.
          0 \<le> n \<and> length values = rows \<and> list_all (\<lambda>row. int (length row) = n) values),
       tensor1d_ok = (\<lambda>values. True),
       floor_mul = (\<lambda>N x. \<lfloor>real_of_int N * x\<rfloor>) \<rparr>"

text \<open>\<open>createModel({vocabSize: v, seqLen: l})\<close>: every other argument is left out.\<close>

definition demo_args :: "jsarg \<Rightarrow> jsarg \<Rightarrow> createModel_args" where
  "demo_args v l =
     \<lparr> arg_vocabSize = v, arg_seqLen = l, arg_embedDim = None, arg_gruUnits = None,
       arg_dropout = None, arg_bidirectional = None \<rparr>"

definition demo_meta :: tokenizerMeta where
  "demo_meta =
     \<lparr> meta_wordIndex = [(''<PAD>'', 0), (''<OOV>'', 1), (''good'', 2), (''movie'', 3)],
       meta_indexWord = [(0, ''<PAD>''), (1, ''<OOV>''), (2, ''good''), (3, ''movie'')],
       meta_vocabSize = Some 4, meta_seqLen = 3, meta_removeStopwords = False,
       meta_maxVocab = 20000 \<rparr>"

definition demo_file :: upload where
  "demo_file =
     Json \<lparr> md_modelTopology =
              Some [Embedding (JInt 4) 64 (JInt 3), GRU 128 (2 / 10), Dense 1 ''sigmoid''],
            md_weightSpecs = True, md_weightData = Some [0, 0, 0, 0],
            md_tokenizerMeta = Some demo_meta \<rparr>"

text \<open>The tokenizer after \<open>new Tokenizer().fitOnTexts(["good movie"])\<close>.\<close>

definition demo_tokenizer :: Tokenizer where
  "demo_tokenizer = fitOnTexts (new_Tokenizer None None) [Some ''good movie'']"

text \<open>A corpus of one text with ten distinct tokens.\<close>

definition demo_corpus :: "string option list" where
  "demo_corpus = [Some ''a b c d e f g h i j b c b'']"

text \<open>The module state after the first \<open>createModel({vocabSize: 4, seqLen: 3})\<close>.\<close>

definition state_after_create :: rnn_state where
  "state_after_create =
     snd (createModel (tf_answering (Num 0)) (demo_args (JInt 4) (JInt 3)) init_state)"

text \<open>The invariant of the module: the models the library holds are exactly the
  current one.\<close>

definition single_live :: "rnn_state \<Rightarrow> bool" where
  "single_live s =
     (live s = (case currentModel s of None \<Rightarrow> [] | Some m \<Rightarrow> [model_id m]))"

section \<open>Properties of padSequences\<close>

lemma length_padSequences:
  "length (padSequences sequences seqLen_arg) = length sequences"
  by (simp add: padSequences_def Let_def)

text \<open>
  Claim C5. For every \<open>seqLen \<ge> 1\<close> and every list of sequences, each row of
  \<open>padSequences(sequences, seqLen)\<close> has length exactly \<open>seqLen\<close>: it is the first
  \<open>seqLen\<close> ids of the input row when that row has at least \<open>seqLen\<close> ids, and
  otherwise the whole row followed by zeros (PAD).
\<close>

theorem padSequences_rows:
  assumes "1 \<le> seqLen" and "i < length sequences"
  shows "length (padSequences sequences (Some seqLen) ! i) = nat seqLen \<and>
         padSequences sequences (Some seqLen) ! i =
           (if seqLen \<le> int (length (sequences ! i)) then take (nat seqLen) (sequences ! i)
            else sequences ! i @ replicate (nat seqLen - length (sequences ! i)) (JNum 0))"
  using assms by (auto simp: padSequences_def slice0_def nat_diff_distrib')

theorem padSequences_rows_witness:
  "(1::int) \<le> 3 \<and> (1::nat) < length [[JNum 5], [JNum 2, JNum 7, JNum 4, JNum 9]] \<and>
   padSequences [[JNum 5], [JNum 2, JNum 7, JNum 4, JNum 9]] (Some 3)
     = [[JNum 5, JNum 0, JNum 0], [JNum 2, JNum 7, JNum 4]] \<and>
   length (padSequences [[JNum 5], [JNum 2, JNum 7, JNum 4, JNum 9]] (Some 3) ! 1) = nat 3"
  using padSequences_rows [of 3 1 "[[JNum 5], [JNum 2, JNum 7, JNum 4, JNum 9]]"]
  by (simp add: padSequences_def slice0_def eval_nat_numeral)

section \<open>Properties of the model lifecycle\<close>

lemma state_after_create:
  "state_after_create =
     \<lparr> currentModel =
         Some \<lparr> model_id = 0,
                layers = [Embedding (JInt 4) 64 (JInt 3), GRU 128 (2 / 10), Dense 1 ''sigmoid''],
                compiled = True \<rparr>,
       currentBackend = None, live = [0], next_id = 1 \<rparr>"
  by (simp add: state_after_create_def createModel_def demo_args_def init_state_def
        tf_answering_def Let_def)

lemma createModel_eq:
  "createModel tf args s =
     (if \<not> truthy (arg_vocabSize args) \<or> \<not> truthy (arg_seqLen args) then (Inl ConfigError, s)
      else case tf_build tf (requested_layers args) of
             InvalidArguments \<Rightarrow> (Inl ConfigError, disposeModel s)
           | BuildFailure \<Rightarrow> (Inl LibraryError, disposeModel s)
           | Built \<Rightarrow>
               (Inr \<lparr> model_id = next_id (disposeModel s), layers = requested_layers args,
                      compiled = True \<rparr>,
                (disposeModel s)
                  \<lparr> currentModel := Some \<lparr> model_id = next_id (disposeModel s),
                                           layers = requested_layers args, compiled = True \<rparr>,
                    live := next_id (disposeModel s) # live (disposeModel s),
                    next_id := next_id (disposeModel s) + 1 \<rparr>))"
  unfolding createModel_def Let_def requested_layers_def [symmetric] disposeModel_def [symmetric]
  by (simp split: build_result.split)

lemma disposeModel_single_live:
  "single_live s \<Longrightarrow> single_live (disposeModel s)"
  by (auto simp: disposeModel_def single_live_def dispose_def split: option.splits)

lemma disposeModel_released:
  "single_live s \<Longrightarrow> live (disposeModel s) = [] \<and> currentModel (disposeModel s) = None"
  by (auto simp: disposeModel_def single_live_def dispose_def split: option.splits)

lemma createModel_single_live:
  assumes "single_live s"
  shows "single_live (snd (createModel tf args s))"
proof -
  note d = disposeModel_single_live [OF assms] disposeModel_released [OF assms]
  show ?thesis
    unfolding createModel_eq using assms d
    by (cases "tf_build tf (requested_layers args)") (simp_all add: single_live_def)
qed

text \<open>
  Claim C1. At most one model is live at a time: \<open>createModel\<close> and \<open>loadModel\<close>
  dispose the model held before the new one becomes current. \<open>createModel\<close> does
  (\<open>createModel_single_live\<close>); \<open>loadModel\<close> assigns \<open>currentModel\<close> without
  disposing: after \<open>createModel\<close> and then a successful \<open>loadModel\<close>, the models 0
  and 1 are both live and only model 1 is current.
\<close>

theorem loadModel_leaves_previous_model_live:
  "single_live state_after_create \<and>
   live (snd (loadModel (tf_answering (Num 0)) demo_file state_after_create)) = [1, 0] \<and>
   map_option model_id
     (currentModel (snd (loadModel (tf_answering (Num 0)) demo_file state_after_create))) = Some 1 \<and>
   \<not> single_live (snd (loadModel (tf_answering (Num 0)) demo_file state_after_create))"
  by (simp add: state_after_create loadModel_def demo_file_def tf_answering_def
        single_live_def Let_def)

section \<open>Properties of createModel\<close>

text \<open>
  Counterexample to claim C2 as stated: \<open>createModel({vocabSize: 10, seqLen: 5})\<close>,
  with no \<open>bidirectional\<close> argument, adds the GRU layer itself, not a bidirectional
  wrapper.
\<close>

theorem createModel_default_unidirectional:
  "fst (createModel (tf_answering (Num 0)) (demo_args (JInt 10) (JInt 5)) init_state) =
     Inr \<lparr> model_id = 0,
           layers = [Embedding (JInt 10) 64 (JInt 5), GRU 128 (2 / 10), Dense 1 ''sigmoid''],
           compiled = True \<rparr>"
  by (simp add: createModel_def demo_args_def init_state_def tf_answering_def Let_def)

lemma requested_layers_bidirectional:
  "requested_layers args =
     [Embedding (arg_vocabSize args)
        (case arg_embedDim args of None \<Rightarrow> 64 | Some n \<Rightarrow> n) (arg_seqLen args),
      (if arg_bidirectional args = Some True
       then Bidirectional (GRU (case arg_gruUnits args of None \<Rightarrow> 128 | Some n \<Rightarrow> n)
                               (case arg_dropout args of None \<Rightarrow> 2 / 10 | Some x \<Rightarrow> x)) ''concat''
       else GRU (case arg_gruUnits args of None \<Rightarrow> 128 | Some n \<Rightarrow> n)
                (case arg_dropout args of None \<Rightarrow> 2 / 10 | Some x \<Rightarrow> x)),
      Dense 1 ''sigmoid'']"
  by (cases "arg_bidirectional args") (simp_all add: requested_layers_def)

lemma createModel_returns_requested:
  "fst (createModel tf args s) = Inr m \<Longrightarrow> layers m = requested_layers args"
  unfolding createModel_eq
  by (cases "tf_build tf (requested_layers args)") (auto split: if_splits)

text \<open>
  Claim C2, amended. The default of \<open>bidirectional\<close> is false: a model that
  \<open>createModel\<close> returns has the embedding, then the GRU layer, then the dense
  sigmoid unit, and the GRU layer is wrapped to run in both directions with
  concatenated outputs exactly when \<open>bidirectional\<close> was passed as true.
\<close>

theorem createModel_layers:
  assumes "fst (createModel tf args s) = Inr m"
  shows "layers m =
     [Embedding (arg_vocabSize args)
        (case arg_embedDim args of None \<Rightarrow> 64 | Some n \<Rightarrow> n) (arg_seqLen args),
      (if arg_bidirectional args = Some True
       then Bidirectional (GRU (case arg_gruUnits args of None \<Rightarrow> 128 | Some n \<Rightarrow> n)
                               (case arg_dropout args of None \<Rightarrow> 2 / 10 | Some x \<Rightarrow> x)) ''concat''
       else GRU (case arg_gruUnits args of None \<Rightarrow> 128 | Some n \<Rightarrow> n)
                (case arg_dropout args of None \<Rightarrow> 2 / 10 | Some x \<Rightarrow> x)),
      Dense 1 ''sigmoid'']"
  using createModel_returns_requested [OF assms] requested_layers_bidirectional [of args]
  by simp

theorem createModel_layers_witness:
  "fst (createModel (tf_answering (Num 0))
          ((demo_args (JInt 10) (JInt 5))\<lparr> arg_bidirectional := Some True \<rparr>) init_state)
     = Inr \<lparr> model_id = 0,
             layers = [Embedding (JInt 10) 64 (JInt 5),
                       Bidirectional (GRU 128 (2 / 10)) ''concat'', Dense 1 ''sigmoid''],
             compiled = True \<rparr> \<and>
   layers \<lparr> model_id = 0,
            layers = [Embedding (JInt 10) 64 (JInt 5),
                      Bidirectional (GRU 128 (2 / 10)) ''concat'', Dense 1 ''sigmoid''],
            compiled = True \<rparr>
     = [Embedding (JInt 10) 64 (JInt 5), Bidirectional (GRU 128 (2 / 10)) ''concat'',
        Dense 1 ''sigmoid'']"
proof -
  have h: "fst (createModel (tf_answering (Num 0))
          ((demo_args (JInt 10) (JInt 5))\<lparr> arg_bidirectional := Some True \<rparr>) init_state)
     = Inr \<lparr> model_id = 0,
             layers = [Embedding (JInt 10) 64 (JInt 5),
                       Bidirectional (GRU 128 (2 / 10)) ''concat'', Dense 1 ''sigmoid''],
             compiled = True \<rparr>"
    by (simp add: createModel_def demo_args_def init_state_def tf_answering_def Let_def)
  from createModel_layers [OF h] h show ?thesis by (simp add: demo_args_def)
qed

lemma falsy_iff: "(\<not> truthy x) = (x \<in> {JUndefined, JNull, JNaN, JInt 0})"
  by (cases x) auto

lemma positive_size_truthy: "positive_size x \<Longrightarrow> truthy x"
  by (cases x) auto

lemma not_positive_size_iff:
  "(\<not> positive_size x) = (x = JUndefined \<or> x = JNull \<or> x = JNaN \<or> (\<exists>n. x = JInt n \<and> n \<le> 0))"
  by (cases x) auto



lemma next_id_disposeModel [simp]: "next_id (disposeModel s) = next_id s"
  by (simp add: disposeModel_def dispose_def split: option.splits)





section \<open>Properties of evaluateModel\<close>

lemma cm_step_eq:
  "cm_step ts ps j (tp, tn, fp, fn) =
     (tp + (if ts ! j = 1 \<and> j < length ps \<and> ps ! j = 1 then 1 else 0),
      tn + (if ts ! j = 0 \<and> j < length ps \<and> ps ! j = 0 then 1 else 0),
      fp + (if ts ! j = 0 \<and> j < length ps \<and> ps ! j = 1 then 1 else 0),
      fn + (if ts ! j = 1 \<and> j < length ps \<and> ps ! j = 0 then 1 else 0))"
  by (simp add: cm_step_def Let_def)

lemma fold_cm_step:
  "fold (cm_step ts ps) js (tp, tn, fp, fn) =
     (tp + length (filter (\<lambda>i. ts ! i = 1 \<and> i < length ps \<and> ps ! i = 1) js),
      tn + length (filter (\<lambda>i. ts ! i = 0 \<and> i < length ps \<and> ps ! i = 0) js),
      fp + length (filter (\<lambda>i. ts ! i = 0 \<and> i < length ps \<and> ps ! i = 1) js),
      fn + length (filter (\<lambda>i. ts ! i = 1 \<and> i < length ps \<and> ps ! i = 0) js))"
proof (induction js arbitrary: tp tn fp fn)
  case Nil
  show ?case by simp
next
  case (Cons j js)
  show ?case
    by (simp add: cm_step_eq Cons.IH)
qed

lemma confusion_counts:
  "confusion ts ps =
     (length (filter (\<lambda>i. ts ! i = 1 \<and> i < length ps \<and> ps ! i = 1) [0..<length ts]),
      length (filter (\<lambda>i. ts ! i = 0 \<and> i < length ps \<and> ps ! i = 0) [0..<length ts]),
      length (filter (\<lambda>i. ts ! i = 0 \<and> i < length ps \<and> ps ! i = 1) [0..<length ts]),
      length (filter (\<lambda>i. ts ! i = 1 \<and> i < length ps \<and> ps ! i = 0) [0..<length ts]))"
  by (simp add: confusion_def fold_cm_step)

text \<open>
  Claim C8. Every evaluation call returns (given a current model and a library that
  answers), and the returned metrics satisfy: \<open>tp\<close>, \<open>fp\<close> and \<open>fn\<close> count the
  indices of \<open>yTrue\<close> by label and thresholded prediction;
  \<open>precision = tp/(tp+fp)\<close>, and 0 when \<open>tp+fp = 0\<close>; \<open>recall = tp/(tp+fn)\<close>, and 0
  when \<open>tp+fn = 0\<close>; \<open>f1 = 2PR/(P+R)\<close>, and 0 when \<open>P+R = 0\<close>. All three are
  finite numbers, never \<open>NaN\<close>, and a test set with no positive prediction gives
  precision 0.
\<close>

theorem evaluateModel_metrics:
  assumes "currentModel s = Some m"
    and "tf_evaluate tf m X y = Some (l # a # rest)"
    and "tf_predict tf m X = Some probs"
  shows "\<exists>r. evaluateModel tf X y th s = Inr r \<and>
     yPred r = map (\<lambda>p. if js_ge p (case th of None \<Rightarrow> Num (1 / 2) | Some x \<Rightarrow> x)
                         then 1 else 0) probs \<and>
     cm_tp r = length (filter (\<lambda>i. y ! i = 1 \<and> i < length (yPred r) \<and> yPred r ! i = 1)
                         [0..<length y]) \<and>
     cm_fp r = length (filter (\<lambda>i. y ! i = 0 \<and> i < length (yPred r) \<and> yPred r ! i = 1)
                         [0..<length y]) \<and>
     cm_fn r = length (filter (\<lambda>i. y ! i = 1 \<and> i < length (yPred r) \<and> yPred r ! i = 0)
                         [0..<length y]) \<and>
     precision r = Num (if cm_tp r + cm_fp r = 0 then 0
                        else real (cm_tp r) / real (cm_tp r + cm_fp r)) \<and>
     recall r = Num (if cm_tp r + cm_fn r = 0 then 0
                     else real (cm_tp r) / real (cm_tp r + cm_fn r)) \<and>
     (\<exists>P R. precision r = Num P \<and> recall r = Num R \<and>
        f1 r = Num (if P + R = 0 then 0 else 2 * P * R / (P + R))) \<and>
     (1 \<notin> set (yPred r) \<longrightarrow> precision r = Num 0)"
proof -
  define ps where
    "ps = map (\<lambda>p. if js_ge p (case th of None \<Rightarrow> Num (1 / 2) | Some x \<Rightarrow> x)
                    then 1 else (0::int)) probs"
  define tp where
    "tp = length (filter (\<lambda>i. y ! i = 1 \<and> i < length ps \<and> ps ! i = 1) [0..<length y])"
  define tn where
    "tn = length (filter (\<lambda>i. y ! i = 0 \<and> i < length ps \<and> ps ! i = 0) [0..<length y])"
  define fp where
    "fp = length (filter (\<lambda>i. y ! i = 0 \<and> i < length ps \<and> ps ! i = 1) [0..<length y])"
  define fn where
    "fn = length (filter (\<lambda>i. y ! i = 1 \<and> i < length ps \<and> ps ! i = 0) [0..<length y])"
  define P where "P = (if tp + fp = 0 then 0 else real tp / real (tp + fp))"
  define R where "R = (if tp + fn = 0 then 0 else real tp / real (tp + fn))"
  define F where "F = (if P + R = 0 then 0 else 2 * P * R / (P + R))"
  define r where "r = \<lparr> loss = l, accuracy = a, yTrue = y, yPred = ps, yProb = probs,
      cm_tp = tp, cm_tn = tn, cm_fp = fp, cm_fn = fn,
      precision = Num P, recall = Num R, f1 = Num F \<rparr>"
  have c: "confusion y ps = (tp, tn, fp, fn)"
    by (simp add: confusion_counts tp_def tn_def fp_def fn_def)
  have p: "(if tp + fp = 0 then Num 0
            else js_div (Num (real tp)) (Num (real (tp + fp)))) = Num P"
    by (simp add: P_def)
  have q: "(if tp + fn = 0 then Num 0
            else js_div (Num (real tp)) (Num (real (tp + fn)))) = Num R"
    by (simp add: R_def)
  have f: "(if js_add (Num P) (Num R) = Num 0 then Num 0
            else js_div (js_mul (js_mul (Num 2) (Num P)) (Num R)) (js_add (Num P) (Num R)))
           = Num F"
    by (simp add: F_def)
  have e: "evaluateModel tf X y th s = Inr r"
    apply (simp only: evaluateModel_def Let_def assms option.case list.case)
    apply (simp only: ps_def [symmetric] c prod.case p q f r_def)
    done
  have z: "tp = 0 \<and> fp = 0" if h: "1 \<notin> set ps"
  proof -
    have "ps ! i \<noteq> 1" if "i < length ps" for i
      by (metis h that nth_mem)
    then show ?thesis
      by (simp add: tp_def fp_def filter_empty_conv)
  qed
  show ?thesis
  proof (rule exI [of _ r], intro conjI)
    show "evaluateModel tf X y th s = Inr r" by (rule e)
    show "\<exists>P R. precision r = Num P \<and> recall r = Num R \<and>
        f1 r = Num (if P + R = 0 then 0 else 2 * P * R / (P + R))"
      by (intro exI [of _ P] exI [of _ R]) (simp add: r_def F_def)
    show "1 \<notin> set (yPred r) \<longrightarrow> precision r = Num 0"
      using z by (simp add: r_def P_def)
  qed (simp_all add: r_def ps_def tp_def fp_def fn_def P_def R_def)
qed

theorem evaluateModel_metrics_witness:
  "currentModel state_after_create =
     Some \<lparr> model_id = 0,
            layers = [Embedding (JInt 4) 64 (JInt 3), GRU 128 (2 / 10), Dense 1 ''sigmoid''],
            compiled = True \<rparr> \<and>
   (\<exists>r. evaluateModel (tf_answering (Num (9 / 10)))
          [[JNum 2, JNum 0, JNum 0], [JNum 1, JNum 3, JNum 0], [JNum 3, JNum 2, JNum 0]]
          [1, 0, 1] None state_after_create = Inr r \<and>
        yPred r = [1, 1, 1] \<and> cm_tp r = 2 \<and> cm_fp r = 1 \<and> cm_fn r = 0 \<and>
        precision r = Num (2 / 3) \<and> recall r = Num 1 \<and> f1 r = Num (4 / 5)) \<and>
   (\<exists>r. evaluateModel (tf_answering (Num (1 / 10)))
          [[JNum 2, JNum 0, JNum 0], [JNum 1, JNum 3, JNum 0], [JNum 3, JNum 2, JNum 0]]
          [1, 0, 1] None state_after_create = Inr r \<and>
        yPred r = [0, 0, 0] \<and> precision r = Num 0 \<and> recall r = Num 0 \<and> f1 r = Num 0)"
proof -
  let ?m = "\<lparr> model_id = 0,
            layers = [Embedding (JInt 4) 64 (JInt 3), GRU 128 (2 / 10), Dense 1 ''sigmoid''],
            compiled = True \<rparr>"
  let ?X = "[[JNum 2, JNum 0, JNum 0], [JNum 1, JNum 3, JNum 0], [JNum 3, JNum 2, JNum 0]]"
  let ?y = "[1, 0, 1 :: int]"
  have m: "currentModel state_after_create = Some ?m"
    by (simp add: state_after_create)
  have ev: "tf_evaluate (tf_answering p) ?m ?X ?y = Some (Num 0 # Num 1 # [])" for p
    by (simp add: tf_answering_def)
  have pr: "tf_predict (tf_answering p) ?m ?X = Some [p, p, p]" for p
    by (simp add: tf_answering_def)
  have u: "[0..<length ?y] = [0, 1, 2]"
    by (simp add: upt_rec)
  from evaluateModel_metrics [OF m ev pr, of "Num (9 / 10)" None]
  obtain r where r: "evaluateModel (tf_answering (Num (9 / 10))) ?X ?y None state_after_create = Inr r"
    and yp0: "yPred r = map (\<lambda>p. if js_ge p (case None of None \<Rightarrow> Num (1 / 2) | Some x \<Rightarrow> x)
                         then 1 else 0) [Num (9 / 10), Num (9 / 10), Num (9 / 10)]"
    and tp: "cm_tp r = length (filter (\<lambda>i. ?y ! i = 1 \<and> i < length (yPred r) \<and> yPred r ! i = 1) [0..<length ?y])"
    and fp: "cm_fp r = length (filter (\<lambda>i. ?y ! i = 0 \<and> i < length (yPred r) \<and> yPred r ! i = 1) [0..<length ?y])"
    and fn: "cm_fn r = length (filter (\<lambda>i. ?y ! i = 1 \<and> i < length (yPred r) \<and> yPred r ! i = 0) [0..<length ?y])"
    and p: "precision r = Num (if cm_tp r + cm_fp r = 0 then 0 else real (cm_tp r) / real (cm_tp r + cm_fp r))"
    and q: "recall r = Num (if cm_tp r + cm_fn r = 0 then 0 else real (cm_tp r) / real (cm_tp r + cm_fn r))"
    and f: "\<exists>P R. precision r = Num P \<and> recall r = Num R \<and> f1 r = Num (if P + R = 0 then 0 else 2 * P * R / (P + R))"
    by blast
  have yp: "yPred r = [1, 1, 1]" unfolding yp0 by simp
  have tp2: "cm_tp r = 2" unfolding tp yp u by simp
  have fp1: "cm_fp r = 1" unfolding fp yp u by simp
  have fn0: "cm_fn r = 0" unfolding fn yp u by simp
  have p2: "precision r = Num (2 / 3)" unfolding p tp2 fp1 by simp
  have q2: "recall r = Num 1" unfolding q tp2 fn0 by simp
  from f obtain P R where "precision r = Num P" "recall r = Num R"
    and ff: "f1 r = Num (if P + R = 0 then 0 else 2 * P * R / (P + R))" by blast
  then have P: "P = 2 / 3" and R: "R = 1" using p2 q2 by simp_all
  have f2: "f1 r = Num (4 / 5)" unfolding ff P R by simp
  from evaluateModel_metrics [OF m ev pr, of "Num (1 / 10)" None]
  obtain r' where r': "evaluateModel (tf_answering (Num (1 / 10))) ?X ?y None state_after_create = Inr r'"
    and yp0': "yPred r' = map (\<lambda>p. if js_ge p (case None of None \<Rightarrow> Num (1 / 2) | Some x \<Rightarrow> x)
                         then 1 else 0) [Num (1 / 10), Num (1 / 10), Num (1 / 10)]"
    and z': "1 \<notin> set (yPred r') \<longrightarrow> precision r' = Num 0"
    and tp': "cm_tp r' = length (filter (\<lambda>i. ?y ! i = 1 \<and> i < length (yPred r') \<and> yPred r' ! i = 1) [0..<length ?y])"
    and q': "recall r' = Num (if cm_tp r' + cm_fn r' = 0 then 0 else real (cm_tp r') / real (cm_tp r' + cm_fn r'))"
    and f': "\<exists>P R. precision r' = Num P \<and> recall r' = Num R \<and> f1 r' = Num (if P + R = 0 then 0 else 2 * P * R / (P + R))"
    by blast
  have yp': "yPred r' = [0, 0, 0]" unfolding yp0' by simp
  have p0: "precision r' = Num 0" using z' yp' by simp
  have tp0: "cm_tp r' = 0" unfolding tp' yp' u by simp
  have q0: "recall r' = Num 0" unfolding q' tp0 by simp
  from f' obtain P' R' where "precision r' = Num P'" "recall r' = Num R'"
    and ff': "f1 r' = Num (if P' + R' = 0 then 0 else 2 * P' * R' / (P' + R'))" by blast
  then have P': "P' = 0" and R': "R' = 0" using p0 q0 by simp_all
  have f0: "f1 r' = Num 0" unfolding ff' P' R' by simp
  show ?thesis
    using m r yp tp2 fp1 fn0 p2 q2 f2 r' yp' p0 q0 f0 by blast
qed

section \<open>Evaluating the tokenizer\<close>

lemmas char_class_defs =
  is_space_def is_word_char_def toLowerCase_def toLowerCase_char_def trim_def char_of_def
  bit_Suc_0_iff

lemma removeStopwords_fitOnTexts [simp]:
  "removeStopwords (fitOnTexts tk texts) = removeStopwords tk"
  by (simp add: fitOnTexts_def Let_def split: prod.splits)

lemma fitted_fitOnTexts [simp]: "fitted (fitOnTexts tk texts)"
  by (simp add: fitOnTexts_def Let_def split: prod.splits)

lemma normalize_plain:
  "\<not> removeStopwords tk \<Longrightarrow> normalize_text tk (Some ''good movie'') = ''good movie''"
  "\<not> removeStopwords tk \<Longrightarrow> normalize_text tk (Some '' '') = []"
  "\<not> removeStopwords tk \<Longrightarrow> normalize_text tk (Some ''Good film!'') = ''good film''"
  "\<not> removeStopwords tk \<Longrightarrow> normalize_text tk (Some ''constructor'') = ''constructor''"
  "\<not> removeStopwords tk \<Longrightarrow> normalize_text tk (Some ''movie bad'') = ''movie bad''"
  by (simp_all add: normalize_text_def char_class_defs Let_def)

lemma demo_tokenizer:
  "demo_tokenizer =
     \<lparr> numWords = 20000, removeStopwords = False,
       wordIndex = [(''<PAD>'', 0), (''<OOV>'', 1), (''good'', 2), (''movie'', 3)],
       indexWord = [(0, ''<PAD>''), (1, ''<OOV>''), (2, ''good''), (3, ''movie'')],
       fitted = True, vocabSize = Some 4 \<rparr>"
proof -
  have n: "normalize_text (new_Tokenizer None None) (Some ''good movie'') = ''good movie''"
    by (rule normalize_plain) (simp add: new_Tokenizer_def)
  show ?thesis
    by (simp add: demo_tokenizer_def fitOnTexts_def word_freq_def count_text_def n
          freq_incr_def slice0_def Let_def)
       (simp add: new_Tokenizer_def)
qed

section \<open>Properties of textsToSequences\<close>

lemma obj_get_oov:
  "map_of own w = None \<Longrightarrow> w \<notin> set object_prototype_keys \<Longrightarrow>
     (case obj_get own w of None \<Rightarrow> JNum 1 | Some v \<Rightarrow> v) = JNum 1"
  by (simp add: obj_get_def)

lemma obj_get_own:
  "map_of own w = Some i \<Longrightarrow>
     (case obj_get own w of None \<Rightarrow> JNum 1 | Some v \<Rightarrow> v) = JNum i"
  by (simp add: obj_get_def)

lemma textsToSequences_empty_text:
  "fitted tk \<Longrightarrow> normalize_text tk t = [] \<Longrightarrow> textsToSequences tk [t] = Inr [[]]"
  by (simp add: textsToSequences_def)

text \<open>
  Claim C7. For a fitted tokenizer, \<open>textsToSequences\<close> maps every normalized token
  that got no id during the fit to the OOV id 1. The code reads
  \<open>this.wordIndex[w] ?? 1\<close> on an object literal: for the token \<open>constructor\<close>,
  which the fit on \<open>["good movie"]\<close> did not assign, the read finds
  \<open>Object.prototype.constructor\<close>, which is not nullish, and the sequence holds
  that function instead of 1. Tokens that are not names of \<open>Object.prototype\<close>
  do map to 1 (\<open>obj_get_oov\<close>), and a text that normalizes to the empty string maps
  to the empty sequence (\<open>textsToSequences_empty_text\<close>).
\<close>

theorem textsToSequences_inherited_key:
  "fitted demo_tokenizer \<and>
   normalize_text demo_tokenizer (Some ''constructor'') = ''constructor'' \<and>
   map_of (wordIndex demo_tokenizer) ''constructor'' = None \<and>
   textsToSequences demo_tokenizer [Some ''constructor''] = Inr [[JProto ''constructor'']]"
proof -
  have r: "\<not> removeStopwords demo_tokenizer" by (simp add: demo_tokenizer)
  show ?thesis
    by (simp add: textsToSequences_def normalize_plain [OF r])
       (simp add: demo_tokenizer obj_get_def object_prototype_keys_def)
qed

section \<open>Properties of predictText\<close>

text \<open>
  Counterexample to claim C4 as stated: on the blank text \<open>" "\<close>, with a current
  model and a fitted tokenizer, \<open>predictText\<close> runs the model on the all-PAD row and
  returns its probability and label; when the library throws in the forward pass,
  the call raises.
\<close>

theorem predictText_blank_text_runs_model:
  "predictText (tf_answering (Num (9 / 10))) (Some '' '') demo_meta demo_tokenizer None state_after_create
     = Inr \<lparr> prob = Num (9 / 10), pred = Some 1 \<rparr> \<and>
   predictText tf_failing (Some '' '') demo_meta demo_tokenizer None state_after_create
     = Inl LibraryError"
proof -
  have r: "\<not> removeStopwords demo_tokenizer" by (simp add: demo_tokenizer)
  have e: "textsToSequences demo_tokenizer [Some '' ''] = Inr [[]]"
    by (simp add: textsToSequences_def normalize_plain [OF r]) (simp add: demo_tokenizer)
  show ?thesis
    by (simp add: predictText_def e state_after_create padSequences_def demo_meta_def
        tf_answering_def tf_failing_def first_value_def)
qed

text \<open>
  Claim C4, amended. With a current model, \<open>predictText\<close> returns
  \<open>{prob: NaN, pred: null}\<close> on a missing text and on the empty string, whatever
  the library would answer (the model is not run); on every non-empty text, the
  whitespace-only ones included, with a fitted tokenizer, it normalizes, encodes,
  pads or truncates to \<open>seqLen\<close>, runs one forward pass on that single row, and
  thresholds the probability at the given threshold (0.5 by default).
\<close>

theorem predictText_contract:
  assumes "currentModel s = Some m"
  shows "predictText tf None meta tk th s = Inr \<lparr> prob = NaN, pred = None \<rparr> \<and>
     predictText tf (Some []) meta tk th s = Inr \<lparr> prob = NaN, pred = None \<rparr> \<and>
     (t \<noteq> [] \<and> fitted tk \<longrightarrow>
        (let norm = normalize_text tk (Some t);
             ids = (if norm = [] then []
                    else map (\<lambda>w. case obj_get (wordIndex tk) w of None \<Rightarrow> JNum 1 | Some v \<Rightarrow> v)
                           (split_sp norm));
             n = meta_seqLen meta;
             row = (if n \<le> int (length ids) then slice0 ids n
                    else ids @ replicate (nat (n - int (length ids))) (JNum 0))
         in predictText tf (Some t) meta tk th s =
              (case tf_predict tf m [row] of
                 None \<Rightarrow> Inl LibraryError
               | Some ps \<Rightarrow>
                   Inr \<lparr> prob = first_value ps,
                         pred = Some (if js_ge (first_value ps)
                                           (case th of None \<Rightarrow> Num (1 / 2) | Some x \<Rightarrow> x)
                                      then 1 else 0) \<rparr>)))"
  using assms
  by (simp add: predictText_def textsToSequences_def padSequences_def Let_def
        split: option.splits)

theorem predictText_contract_witness:
  "currentModel state_after_create =
     Some \<lparr> model_id = 0,
            layers = [Embedding (JInt 4) 64 (JInt 3), GRU 128 (2 / 10), Dense 1 ''sigmoid''],
            compiled = True \<rparr> \<and>
   ''Good film!'' \<noteq> [] \<and> fitted demo_tokenizer \<and>
   predictText tf_failing None demo_meta demo_tokenizer None state_after_create
     = Inr \<lparr> prob = NaN, pred = None \<rparr> \<and>
   predictText tf_failing (Some []) demo_meta demo_tokenizer None state_after_create
     = Inr \<lparr> prob = NaN, pred = None \<rparr> \<and>
   predictText (tf_answering (Num (3 / 10))) (Some ''Good film!'') demo_meta demo_tokenizer None
       state_after_create
     = Inr \<lparr> prob = Num (3 / 10), pred = Some 0 \<rparr>"
proof -
  have m: "currentModel state_after_create =
     Some \<lparr> model_id = 0,
            layers = [Embedding (JInt 4) 64 (JInt 3), GRU 128 (2 / 10), Dense 1 ''sigmoid''],
            compiled = True \<rparr>"
    by (simp add: state_after_create)
  have r: "\<not> removeStopwords demo_tokenizer" by (simp add: demo_tokenizer)
  have f: "fitted demo_tokenizer" by (simp add: demo_tokenizer)
  have w: "wordIndex demo_tokenizer = [(''<PAD>'', 0), (''<OOV>'', 1), (''good'', 2), (''movie'', 3)]"
    by (simp add: demo_tokenizer)
  show ?thesis
    using predictText_contract [OF m, of tf_failing demo_meta demo_tokenizer None "''Good film!''"]
      predictText_contract [OF m, of "tf_answering (Num (3 / 10))" demo_meta demo_tokenizer None
        "''Good film!''"]
    by (simp add: m f w normalize_plain [OF r] Let_def obj_get_def object_prototype_keys_def
          demo_meta_def tf_answering_def first_value_def)
qed

section \<open>Properties of the shuffle\<close>

lemma mulberry32_bits:
  "mulberry32 s = (s + 0x6d2b79f5, real (unat (mulberry32_bits s)) / 4294967296)"
  by (simp add: mulberry32_def mulberry32_bits_def Let_def)

lemma draw_floor: "nat \<lfloor>real u / 4294967296 * real n\<rfloor> = (u * n) div 4294967296"
proof -
  have "real u / 4294967296 * real n = real (u * n) / real 4294967296" by simp
  also have "\<lfloor>\<dots>\<rfloor> = int ((u * n) div 4294967296)"
    by (simp only: floor_divide_of_nat_eq)
  finally show ?thesis by simp
qed

lemma draw_index:
  "nat \<lfloor>snd (mulberry32 s) * real (i + 1)\<rfloor> = (unat (mulberry32_bits s) * (i + 1)) div 4294967296"
  by (simp only: mulberry32_bits snd_conv draw_floor)

lemma draw_le: "nat \<lfloor>snd (mulberry32 s) * real (i + 1)\<rfloor> \<le> i"
proof -
  have "unat (mulberry32_bits s) < 2 ^ 32"
    using unsigned_less [of "mulberry32_bits s", where ?'a = nat] by simp
  then have "unat (mulberry32_bits s) < 4294967296" by simp
  then have "unat (mulberry32_bits s) * (i + 1) < 4294967296 * (i + 1)"
    by (rule mult_less_mono1) simp
  then have "unat (mulberry32_bits s) * (i + 1) < (i + 1) * 4294967296"
    by (simp only: mult.commute)
  then have "(unat (mulberry32_bits s) * (i + 1)) div 4294967296 < i + 1"
    by (rule less_mult_imp_div_less)
  then show ?thesis
    by (simp only: draw_index)
qed

lemma js_swap_in_range:
  "i < length a \<Longrightarrow> j < length a \<Longrightarrow> js_swap a i j = a[i := a ! j, j := a ! i]"
  by (simp add: js_swap_def js_get_def js_set_def Let_def)

lemma length_perm_loop [simp]: "length (perm_loop k s p) = length p"
  by (induction k arbitrary: s p) (simp_all add: Let_def split: prod.splits)

lemma mset_perm_loop: "k < length p \<Longrightarrow> mset (perm_loop k s p) = mset p"
proof (induction k arbitrary: s p)
  case 0
  show ?case by simp
next
  case (Suc k)
  obtain s' r where m: "mulberry32 s = (s', r)" by (cases "mulberry32 s")
  let ?j = "nat \<lfloor>r * real (Suc k + 1)\<rfloor>"
  have j: "?j \<le> Suc k" using draw_le [of s "Suc k"] by (simp add: m)
  have "mset (p[Suc k := p ! ?j, ?j := p ! Suc k]) = mset p"
    using Suc.prems j by (intro mset_swap) simp_all
  moreover have "mset (perm_loop k s' (p[Suc k := p ! ?j, ?j := p ! Suc k]))
      = mset (p[Suc k := p ! ?j, ?j := p ! Suc k])"
    using Suc.prems by (intro Suc.IH) simp
  ultimately show ?case by (simp add: m Let_def)
qed

lemma shuffle_loop_perm:
  assumes "length p = length a0" and "k < length a0"
  shows "shuffle_loop k s (map (\<lambda>x. a0 ! x) p) (map (\<lambda>x. b0 ! x) p) =
           (map (\<lambda>x. a0 ! x) (perm_loop k s p), map (\<lambda>x. b0 ! x) (perm_loop k s p))"
  using assms
proof (induction k arbitrary: s p)
  case 0
  show ?case by simp
next
  case (Suc k)
  obtain s' r where m: "mulberry32 s = (s', r)" by (cases "mulberry32 s")
  let ?j = "nat \<lfloor>r * real (Suc k + 1)\<rfloor>"
  let ?p = "p[Suc k := p ! ?j, ?j := p ! Suc k]"
  have j: "?j \<le> Suc k" using draw_le [of s "Suc k"] by (simp add: m)
  have lj: "?j < length p" and li: "Suc k < length p" using j Suc.prems by simp_all
  have sa: "js_swap (map (\<lambda>x. a0 ! x) p) (Suc k) ?j = map (\<lambda>x. a0 ! x) ?p"
    using lj li by (simp add: js_swap_in_range map_update)
  have sb: "js_swap (map (\<lambda>x. b0 ! x) p) (Suc k) ?j = map (\<lambda>x. b0 ! x) ?p"
    using lj li by (simp add: js_swap_in_range map_update)
  have ih: "shuffle_loop k s' (map (\<lambda>x. a0 ! x) ?p) (map (\<lambda>x. b0 ! x) ?p) =
          (map (\<lambda>x. a0 ! x) (perm_loop k s' ?p), map (\<lambda>x. b0 ! x) (perm_loop k s' ?p))"
    using Suc.prems by (intro Suc.IH) simp_all
  have "shuffle_loop (Suc k) s (map (\<lambda>x. a0 ! x) p) (map (\<lambda>x. b0 ! x) p) =
          shuffle_loop k s' (map (\<lambda>x. a0 ! x) ?p) (map (\<lambda>x. b0 ! x) ?p)"
    by (simp only: shuffle_loop.simps Let_def m prod.case sa sb)
  moreover have "perm_loop (Suc k) s p = perm_loop k s' ?p"
    by (simp only: perm_loop.simps Let_def m prod.case)
  ultimately show ?case using ih by simp
qed

lemma shuffleInPlace_perm:
  assumes "length a = length b"
  shows "shuffleInPlace a b seed_arg =
     (map (\<lambda>x. a ! x) (shuffle_perm (case seed_arg of None \<Rightarrow> 1337 | Some s \<Rightarrow> s) (length a)),
      map (\<lambda>x. b ! x) (shuffle_perm (case seed_arg of None \<Rightarrow> 1337 | Some s \<Rightarrow> s) (length a)))"
proof (cases "a = []")
  case True
  with assms show ?thesis by (simp add: shuffleInPlace_def shuffle_perm_def)
next
  case False
  then have k: "length a - 1 < length a" by (cases a) simp_all
  have "shuffle_loop (length a - 1) s (map (\<lambda>x. a ! x) [0..<length a]) (map (\<lambda>x. b ! x) [0..<length a])
      = (map (\<lambda>x. a ! x) (perm_loop (length a - 1) s [0..<length a]),
         map (\<lambda>x. b ! x) (perm_loop (length a - 1) s [0..<length a]))" for s
    using k by (intro shuffle_loop_perm) simp_all
  moreover have "map (\<lambda>x. a ! x) [0..<length a] = a" by (rule map_nth)
  moreover have "map (\<lambda>x. b ! x) [0..<length a] = b" using assms map_nth [of b] by simp
  ultimately show ?thesis
    by (simp add: shuffleInPlace_def shuffle_perm_def)
qed

lemma mset_shuffle_perm: "mset (shuffle_perm seed n) = mset [0..<n]"
proof (cases n)
  case 0
  then show ?thesis by (simp add: shuffle_perm_def)
next
  case (Suc k)
  then show ?thesis
    unfolding shuffle_perm_def by (intro mset_perm_loop) simp
qed


lemma perm_loop_step:
  "0 < i \<Longrightarrow> perm_loop i s p =
     perm_loop (i - 1) (s + 0x6d2b79f5)
       (p[i := p ! ((unat (mulberry32_bits s) * (i + 1)) div 4294967296),
          (unat (mulberry32_bits s) * (i + 1)) div 4294967296 := p ! i])"
proof -
  assume "0 < i"
  then obtain k where i: "i = Suc k" by (cases i) simp_all
  have "nat \<lfloor>real (unat (mulberry32_bits s)) / 4294967296 * real (Suc k + 1)\<rfloor>
        = (unat (mulberry32_bits s) * (Suc k + 1)) div 4294967296"
    by (rule draw_floor)
  then show ?thesis
    unfolding i by (simp only: perm_loop.simps mulberry32_bits Let_def prod.case diff_Suc_1)
qed

lemma list_update_Cons_pos: "0 < i \<Longrightarrow> (x # xs)[i := y] = x # xs[i - 1 := y]"
  by (cases i) simp_all

lemma mulberry32_bits_1337:
  "mulberry32_bits 1337 = 792042790"
  "mulberry32_bits 1831567150 = 815997621"
  "mulberry32_bits 3663132963 = 3480950701"
  by (simp_all add: mulberry32_bits_def Let_def)

lemma shuffle_perm_1337_4: "shuffle_perm 1337 4 = [2, 1, 3, 0]"
proof -
  have u: "[0..<4] = [0, 1, 2, 3 :: nat]" by (simp add: upt_rec)
  show ?thesis
    by (simp add: shuffle_perm_def u perm_loop_step mulberry32_bits_1337 list_update_Cons_pos
          del: perm_loop.simps(2))
qed

lemma shuffle_perm_1337_Suc4: "shuffle_perm 1337 (Suc (Suc (Suc (Suc 0)))) = [2, 1, 3, 0]"
  using shuffle_perm_1337_4 by (simp add: eval_nat_numeral)

text \<open>
  Claim C9. The shuffle is deterministic and lock-step. For arrays of equal length,
  the result of \<open>shuffleInPlace\<close> is the one arrangement \<open>shuffle_perm seed n\<close>
  applied to both arrays: it is a function of the seed and the length alone, so two
  runs with the same seed on equal inputs give identical outputs; it is a permutation
  of the indices; the pair at every index of the result is a pair of the input. Each
  swap index \<open>j\<close> drawn for position \<open>i\<close> lies in \<open>[0, i]\<close>, in a Fisher-Yates
  pass from the last index down (\<open>perm_loop\<close>).
\<close>

theorem shuffleInPlace_lockstep:
  assumes "length a = length b"
  shows "(let p = shuffle_perm (case seed_arg of None \<Rightarrow> 1337 | Some s \<Rightarrow> s) (length a)
          in shuffleInPlace a b seed_arg = (map (\<lambda>x. a ! x) p, map (\<lambda>x. b ! x) p) \<and>
             mset p = mset [0..<length a] \<and>
             zip (fst (shuffleInPlace a b seed_arg)) (snd (shuffleInPlace a b seed_arg))
               = map (\<lambda>x. zip a b ! x) p \<and>
             mset (zip (fst (shuffleInPlace a b seed_arg)) (snd (shuffleInPlace a b seed_arg)))
               = mset (zip a b)) \<and>
         (\<forall>s i. nat \<lfloor>snd (mulberry32 s) * real (i + 1)\<rfloor> \<le> i)"
proof -
  define p where "p = shuffle_perm (case seed_arg of None \<Rightarrow> 1337 | Some s \<Rightarrow> s) (length a)"
  have e: "shuffleInPlace a b seed_arg = (map (\<lambda>x. a ! x) p, map (\<lambda>x. b ! x) p)"
    unfolding p_def by (rule shuffleInPlace_perm [OF assms])
  have m: "mset p = mset [0..<length a]"
    unfolding p_def by (rule mset_shuffle_perm)
  have s: "set p = {0..<length a}"
    using m by (metis mset_eq_setD set_upt)
  have "zip (map f q) (map g q) = map (\<lambda>x. (f x, g x)) q" for f :: "nat \<Rightarrow> 'a option"
    and g :: "nat \<Rightarrow> 'b option" and q
    by (induction q) simp_all
  moreover have "map (\<lambda>x. (a ! x, b ! x)) p = map (\<lambda>x. zip a b ! x) p"
    using s assms by (intro map_cong refl) simp
  ultimately have z: "zip (map (\<lambda>x. a ! x) p) (map (\<lambda>x. b ! x) p) = map (\<lambda>x. zip a b ! x) p"
    by simp
  have "mset (map (\<lambda>x. zip a b ! x) p) = image_mset (\<lambda>x. zip a b ! x) (mset [0..<length a])"
    using m by (metis mset_map)
  also have "\<dots> = mset (map (\<lambda>x. zip a b ! x) [0..<length (zip a b)])"
    using assms by simp
  also have "\<dots> = mset (zip a b)"
    by (simp only: map_nth)
  finally have mz: "mset (map (\<lambda>x. zip a b ! x) p) = mset (zip a b)" .
  show ?thesis
    unfolding Let_def p_def [symmetric]
    using e m z mz draw_le by simp
qed

theorem shuffleInPlace_lockstep_witness:
  "length (map Some [0, 1, 2, 3 :: nat]) = length (map Some ''abcd'') \<and>
   shuffleInPlace (map Some [0, 1, 2, 3 :: nat]) (map Some ''abcd'') None
     = ([Some 2, Some 1, Some 3, Some 0],
        [Some CHR ''c'', Some CHR ''b'', Some CHR ''d'', Some CHR ''a'']) \<and>
   shuffleInPlace (map Some [0, 1, 2, 3 :: nat]) (map Some ''abcd'') (Some 1337)
     = ([Some 2, Some 1, Some 3, Some 0],
        [Some CHR ''c'', Some CHR ''b'', Some CHR ''d'', Some CHR ''a''])"
  using shuffleInPlace_lockstep [of "map Some [0, 1, 2, 3 :: nat]" "map Some ''abcd''" None]
    shuffleInPlace_lockstep [of "map Some [0, 1, 2, 3 :: nat]" "map Some ''abcd''" "Some 1337"]
  by (simp add: shuffle_perm_1337_Suc4 Let_def)

section \<open>Properties of prepareTensors\<close>

lemma prepareTensors_invalid:
  "texts = [] \<or> labels = [] \<or> length texts \<noteq> length labels \<Longrightarrow>
     snd (prepareTensors rt texts labels sl mv rs ts) = (texts, labels)"
  by (auto simp: prepareTensors_def Let_def)

lemma prepareTensors_NaN:
  "texts \<noteq> [] \<Longrightarrow> labels \<noteq> [] \<Longrightarrow> length texts = length labels \<Longrightarrow>
     fst (prepareTensors rt texts labels (Some IntNaN) mv rs ts) = Inl RangeError"
  by (simp add: prepareTensors_def Let_def textsToSequences_def case_prod_beta)

text \<open>
  Claim C10. \<open>prepareTensors\<close> mutates its caller's arrays: once the validation of
  lines 156 and 157 has passed, \<open>texts\<close> and \<open>labels\<close> hold, when the call returns
  or throws, the order the seeded shuffle (seed 1337) leaves, the same arrangement
  applied to both; they are not copied. On \<open>["good", "bad", "fine", "poor"]\<close> the
  array afterwards is \<open>["fine", "bad", "poor", "good"]\<close>.
\<close>

theorem prepareTensors_mutates_arguments:
  assumes "texts \<noteq> []" and "labels \<noteq> []" and "length texts = length labels"
  shows "snd (prepareTensors rt texts labels sl mv rs ts) = shuffleInPlace texts labels None \<and>
         snd (prepareTensors rt texts labels sl mv rs ts) =
           (map (\<lambda>x. texts ! x) (shuffle_perm 1337 (length texts)),
            map (\<lambda>x. labels ! x) (shuffle_perm 1337 (length texts)))"
proof -
  have 1: "snd (prepareTensors rt texts labels sl mv rs ts) = shuffleInPlace texts labels None"
    using assms
    by (simp add: prepareTensors_def Let_def textsToSequences_def case_prod_beta
          split: jsint.splits)
  have 2: "shuffleInPlace texts labels None =
           (map (\<lambda>x. texts ! x) (shuffle_perm 1337 (length texts)),
            map (\<lambda>x. labels ! x) (shuffle_perm 1337 (length texts)))"
    using shuffleInPlace_perm [OF assms(3), of None] by simp
  show ?thesis using 1 2 by simp
qed

theorem prepareTensors_mutates_arguments_witness:
  "[Some ''good'', Some ''bad'', Some ''fine'', Some ''poor''] \<noteq> [] \<and>
   [Some 1, Some 0, Some 1, Some (0::int)] \<noteq> [] \<and>
   length [Some ''good'', Some ''bad'', Some ''fine'', Some ''poor'']
     = length [Some 1, Some 0, Some 1, Some (0::int)] \<and>
   snd (prepareTensors rt_demo [Some ''good'', Some ''bad'', Some ''fine'', Some ''poor'']
          [Some 1, Some 0, Some 1, Some 0] None None None None)
     = ([Some ''fine'', Some ''bad'', Some ''poor'', Some ''good''],
        [Some 1, Some 0, Some 0, Some 1]) \<and>
   fst (snd (prepareTensors rt_demo [Some ''good'', Some ''bad'', Some ''fine'', Some ''poor'']
          [Some 1, Some 0, Some 1, Some 0] None None None None))
     \<noteq> [Some ''good'', Some ''bad'', Some ''fine'', Some ''poor''] \<and>
   prepareTensors rt_demo [Some ''good'', Some ''bad'', Some ''fine'', Some ''poor'']
          [Some 1, Some 0, Some 1, Some 0] (Some IntNaN) None None None
     = (Inl RangeError,
        [Some ''fine'', Some ''bad'', Some ''poor'', Some ''good''],
        [Some 1, Some 0, Some 0, Some 1])"
proof -
  have pre: "[Some ''good'', Some ''bad'', Some ''fine'', Some ''poor''] \<noteq> []"
    "[Some 1, Some 0, Some 1, Some (0::int)] \<noteq> []"
    "length [Some ''good'', Some ''bad'', Some ''fine'', Some ''poor'']
       = length [Some 1, Some 0, Some 1, Some (0::int)]"
    by simp_all
  have "snd (prepareTensors rt_demo [Some ''good'', Some ''bad'', Some ''fine'', Some ''poor'']
          [Some 1, Some 0, Some 1, Some 0] sl None None None)
     = (map (\<lambda>x. [Some ''good'', Some ''bad'', Some ''fine'', Some ''poor''] ! x)
          (shuffle_perm 1337 (length [Some ''good'', Some ''bad'', Some ''fine'', Some ''poor''])),
        map (\<lambda>x. [Some 1, Some 0, Some 1, Some (0::int)] ! x)
          (shuffle_perm 1337 (length [Some ''good'', Some ''bad'', Some ''fine'', Some ''poor''])))"
    for sl
    by (rule prepareTensors_mutates_arguments [OF pre, THEN conjunct2])
  then have m: "snd (prepareTensors rt_demo [Some ''good'', Some ''bad'', Some ''fine'', Some ''poor'']
          [Some 1, Some 0, Some 1, Some 0] sl None None None)
     = ([Some ''fine'', Some ''bad'', Some ''poor'', Some ''good''],
        [Some 1, Some 0, Some 0, Some 1])" for sl
    by (simp add: shuffle_perm_1337_Suc4)
  have e: "fst (prepareTensors rt_demo [Some ''good'', Some ''bad'', Some ''fine'', Some ''poor'']
          [Some 1, Some 0, Some 1, Some 0] (Some IntNaN) None None None) = Inl RangeError"
    by (rule prepareTensors_NaN [OF pre])
  show ?thesis
    using m [of None] m [of "Some IntNaN"] e by (simp add: prod_eq_iff)
qed

section \<open>Properties of fitOnTexts\<close>

lemma first_seen_snoc:
  "first_seen (xs @ [x]) = (if x \<in> set xs then first_seen xs else first_seen xs @ [x])"
  by (simp add: first_seen_def)

lemma set_first_seen [simp]: "set (first_seen xs) = set xs"
  by (simp add: first_seen_def)

lemma distinct_first_seen [simp]: "distinct (first_seen xs)"
  by (simp add: first_seen_def)

lemma length_first_seen: "length (first_seen xs) = card (set xs)"
  using distinct_card [of "first_seen xs"] by simp

lemma update_map_present:
  "w \<in> set xs \<Longrightarrow> distinct xs \<Longrightarrow>
     AList.update w v (map (\<lambda>x. (x, g x)) xs) = map (\<lambda>x. (x, if x = w then v else g x)) xs"
  by (induction xs) auto

lemma update_absent:
  "k \<notin> fst ` set al \<Longrightarrow> AList.update k v al = al @ [(k, v)]"
  by (induction al) auto

lemma map_of_graph:
  "map_of (map (\<lambda>x. (x, g x)) xs) w = (if w \<in> set xs then Some (g w) else None)"
  by (induction xs) auto

lemma freq_incr_table: "freq_incr (freq_table toks) w = freq_table (toks @ [w])"
proof (cases "w \<in> set toks")
  case True
  have "AList.update w (count_list toks w + 1) (map (\<lambda>x. (x, count_list toks x)) (first_seen toks))
      = map (\<lambda>x. (x, if x = w then count_list toks w + 1 else count_list toks x)) (first_seen toks)"
    using True by (intro update_map_present) simp_all
  also have "\<dots> = map (\<lambda>x. (x, count_list (toks @ [w]) x)) (first_seen toks)"
    by (intro map_cong refl) simp
  finally show ?thesis
    using True by (simp add: freq_incr_def freq_table_def map_of_graph first_seen_snoc)
next
  case False
  have t: "freq_table (toks @ [w]) =
      map (\<lambda>x. (x, count_list (toks @ [w]) x)) (first_seen toks) @ [(w, count_list (toks @ [w]) w)]"
    using False by (simp add: freq_table_def first_seen_snoc)
  have c: "count_list (toks @ [w]) w = 1"
    using False by (simp add: count_list_0_iff)
  have m: "map (\<lambda>x. (x, count_list (toks @ [w]) x)) (first_seen toks)
      = map (\<lambda>x. (x, count_list toks x)) (first_seen toks)"
    using False by (intro map_cong refl) auto
  have u: "AList.update w 1 (freq_table toks) = freq_table toks @ [(w, 1)]"
    using False by (intro update_absent) (simp add: freq_table_def image_image)
  have f: "freq_incr (freq_table toks) w = AList.update w 1 (freq_table toks)"
    using False by (simp add: freq_incr_def freq_table_def map_of_graph)
  show ?thesis
    unfolding f u t c m by (simp add: freq_table_def)
qed

lemma fold_freq_incr:
  "fold (\<lambda>w f. if w = [] then f else freq_incr f w) ws (freq_table pre)
     = freq_table (pre @ filter (\<lambda>w. w \<noteq> []) ws)"
proof (induction ws arbitrary: pre)
  case Nil
  show ?case by simp
next
  case (Cons w ws)
  show ?case
    using Cons.IH [of pre] Cons.IH [of "pre @ [w]"] by (simp add: freq_incr_table)
qed

lemma count_text_table:
  "count_text tk (freq_table pre) t
     = freq_table (pre @ filter (\<lambda>w. w \<noteq> []) (split_sp (normalize_text tk t)))"
  by (simp add: count_text_def Let_def fold_freq_incr)

lemma fold_count_text:
  "fold (\<lambda>t f. count_text tk f t) texts (freq_table pre)
     = freq_table (pre @ corpus_tokens tk texts)"
proof (induction texts arbitrary: pre)
  case Nil
  show ?case by (simp add: corpus_tokens_def)
next
  case (Cons t texts)
  show ?case
    using Cons.IH [of "pre @ filter (\<lambda>w. w \<noteq> []) (split_sp (normalize_text tk t))"]
    by (simp add: count_text_table corpus_tokens_def)
qed

lemma word_freq_table: "word_freq tk texts = freq_table (corpus_tokens tk texts)"
  using fold_count_text [of tk texts "[]"]
  by (simp add: word_freq_def freq_table_def first_seen_def)

lemma insort_key_map:
  "insort_key f (h x) (map h xs) = map h (insort_key (\<lambda>y. f (h y)) x xs)"
  by (induction xs) simp_all

lemma sort_key_map: "sort_key f (map h xs) = map h (sort_key (\<lambda>y. f (h y)) xs)"
  by (induction xs) (simp_all add: insort_key_map)

lemma sorted_freq_table:
  "map fst (sort_key (\<lambda>e. - int (snd e)) (freq_table toks))
     = sort_key (\<lambda>w. - int (count_list toks w)) (first_seen toks)"
  by (simp add: freq_table_def sort_key_map o_def)


lemma set_replace_runs: "set (replace_runs P s) \<subseteq> {c \<in> set s. \<not> P c} \<union> {CHR '' ''}"
  by (induction P s rule: replace_runs.induct) (auto dest: set_dropWhileD)

lemma set_trim: "set (trim s) \<subseteq> set s"
proof -
  have "set (dropWhile is_space (rev (dropWhile is_space s)))
      \<subseteq> set (rev (dropWhile is_space s))"
    by (auto dest: set_dropWhileD)
  also have "\<dots> = set (dropWhile is_space s)" by simp
  also have "\<dots> \<subseteq> set s" by (auto dest: set_dropWhileD)
  finally show ?thesis by (simp add: trim_def)
qed

lemma set_split_sp: "w \<in> set (split_sp s) \<Longrightarrow> set w \<subseteq> set s"
proof (induction s arbitrary: w)
  case Nil
  then show ?case by simp
next
  case (Cons c cs)
  show ?case
  proof (cases "c = CHR '' ''")
    case True
    with Cons.prems have "w = [] \<or> w \<in> set (split_sp cs)" by simp
    then show ?thesis using Cons.IH by auto
  next
    case False
    show ?thesis
    proof (cases "split_sp cs")
      case Nil
      with False Cons.prems show ?thesis by simp
    next
      case (Cons v vs)
      with False Cons.prems have "w = c # v \<or> w \<in> set vs" by simp
      moreover have "set v \<subseteq> set cs" using Cons.IH Cons by simp
      moreover have "w \<in> set vs \<Longrightarrow> set w \<subseteq> set cs" using Cons.IH Cons by simp
      ultimately show ?thesis by auto
    qed
  qed
qed

lemma set_join_sp: "set (join_sp ws) \<subseteq> \<Union> (set ` set ws) \<union> {CHR '' ''}"
  by (induction ws rule: join_sp.induct) auto

lemma normalize_text_chars:
  assumes "c \<in> set (normalize_text tk t)"
  shows "is_word_char c \<or> c = CHR '' ''"
proof -
  define stripped where "stripped = (\<lambda>x. trim (replace_runs is_space
      (replace_runs (\<lambda>c. \<not> is_word_char c \<and> \<not> is_space c) (toLowerCase x))))"
  have st: "is_word_char d \<or> d = CHR '' ''" if "d \<in> set (stripped x)" for d x
  proof -
    from that have "d \<in> set (replace_runs is_space
        (replace_runs (\<lambda>c. \<not> is_word_char c \<and> \<not> is_space c) (toLowerCase x)))"
      unfolding stripped_def using set_trim by blast
    then have "(d \<in> set (replace_runs (\<lambda>c. \<not> is_word_char c \<and> \<not> is_space c) (toLowerCase x))
        \<and> \<not> is_space d) \<or> d = CHR '' ''"
      using set_replace_runs [of is_space] by blast
    then show ?thesis
      using set_replace_runs [of "\<lambda>c. \<not> is_word_char c \<and> \<not> is_space c" "toLowerCase x"] by blast
  qed
  show ?thesis
  proof (cases t)
    case None
    with assms show ?thesis by (simp add: normalize_text_def)
  next
    case (Some x)
    show ?thesis
    proof (cases "removeStopwords tk")
      case False
      with assms Some have "c \<in> set (stripped x)"
        by (simp add: normalize_text_def stripped_def Let_def split: if_splits)
      then show ?thesis by (rule st)
    next
      case True
      with assms Some have "c \<in> set (join_sp (filter (\<lambda>w. w \<noteq> [] \<and> w \<notin> set stop_words)
          (split_sp (stripped x))))"
        by (simp add: normalize_text_def stripped_def Let_def split: if_splits)
      then have "(\<exists>w \<in> set (split_sp (stripped x)). c \<in> set w) \<or> c = CHR '' ''"
        using set_join_sp by fastforce
      then have "c \<in> set (stripped x) \<or> c = CHR '' ''"
        using set_split_sp by blast
      then show ?thesis using st by blast
    qed
  qed
qed

lemma corpus_token_chars:
  assumes "w \<in> set (corpus_tokens tk texts)" and "c \<in> set w"
  shows "is_word_char c \<or> c = CHR '' ''"
proof -
  from assms(1) obtain t where "w \<in> set (split_sp (normalize_text tk t))"
    by (auto simp: corpus_tokens_def)
  then have "c \<in> set (normalize_text tk t)"
    using assms(2) set_split_sp by blast
  then show ?thesis by (rule normalize_text_chars)
qed

lemma corpus_token_not_reserved:
  assumes "w \<in> set (corpus_tokens tk texts)"
  shows "w \<noteq> ''<PAD>'' \<and> w \<noteq> ''<OOV>''"
proof -
  have "\<not> (is_word_char CHR ''<'' \<or> CHR ''<'' = CHR '' '')"
    by (simp add: is_word_char_def)
  then have "CHR ''<'' \<notin> set w"
    using corpus_token_chars [OF assms] by blast
  then show ?thesis by auto
qed

lemma map_upt_Suc: "map f [0..<Suc n] = f 0 # map (\<lambda>i. f (Suc i)) [0..<n]"
proof -
  have "[0..<Suc n] = 0 # map Suc [0..<n]"
    by (simp add: upt_conv_Cons map_Suc_upt del: upt_Suc)
  then show ?thesis by (simp add: o_def del: upt_Suc)
qed

lemma assign_ids_fresh:
  assumes "distinct ws" and "set ws \<inter> fst ` set wi = {}" and "\<forall>i \<in> fst ` set iw. i < idx"
  shows "assign_ids ws idx wi iw =
     (wi @ map (\<lambda>i. (ws ! i, idx + int i)) [0..<length ws],
      iw @ map (\<lambda>i. (idx + int i, ws ! i)) [0..<length ws])"
  using assms
proof (induction ws arbitrary: idx wi iw)
  case Nil
  show ?case by simp
next
  case (Cons w ws)
  have uw: "AList.update w idx wi = wi @ [(w, idx)]"
    using Cons.prems(2) by (intro update_absent) auto
  have ui: "AList.update idx w iw = iw @ [(idx, w)]"
    using Cons.prems(3) by (intro update_absent) auto
  have "assign_ids ws (idx + 1) (wi @ [(w, idx)]) (iw @ [(idx, w)]) =
     ((wi @ [(w, idx)]) @ map (\<lambda>i. (ws ! i, idx + 1 + int i)) [0..<length ws],
      (iw @ [(idx, w)]) @ map (\<lambda>i. (idx + 1 + int i, ws ! i)) [0..<length ws])"
    using Cons.prems by (intro Cons.IH) auto
  then show ?case
    by (simp add: uw ui map_upt_Suc add.assoc del: upt_Suc)
qed


lemma fitOnTexts_new:
  fixes nw_arg rs_arg texts
  defines "tk0 \<equiv> new_Tokenizer nw_arg rs_arg"
  defines "toks \<equiv> corpus_tokens tk0 texts"
  defines "assigned \<equiv> take (nat (max 0 (numWords tk0 - 2)))
                    (sort_key (\<lambda>w. - int (count_list toks w)) (first_seen toks))"
  shows "fitOnTexts tk0 texts =
     tk0\<lparr> wordIndex := [(''<PAD>'', 0), (''<OOV>'', 1)]
                          @ map (\<lambda>i. (assigned ! i, 2 + int i)) [0..<length assigned],
          indexWord := [(0, ''<PAD>''), (1, ''<OOV>'')]
                          @ map (\<lambda>i. (2 + int i, assigned ! i)) [0..<length assigned],
          vocabSize := Some (2 + length assigned), fitted := True \<rparr>"
proof -
  have t: "map fst (slice0 (sort_key (\<lambda>e. - int (snd e)) (word_freq tk0 texts))
                      (max 0 (numWords tk0 - 2))) = assigned"
  proof -
    have "map fst (take n (sort_key (\<lambda>e. - int (snd e)) (freq_table toks)))
        = take n (sort_key (\<lambda>w. - int (count_list toks w)) (first_seen toks))" for n
      by (simp only: take_map [symmetric] sorted_freq_table)
    then show ?thesis
      by (simp add: slice0_def word_freq_table assigned_def toks_def)
  qed
  have d: "distinct assigned"
    by (simp add: assigned_def)
  have "set assigned \<subseteq> set toks"
    using set_take_subset [of "nat (max 0 (numWords tk0 - 2))"
        "sort_key (\<lambda>w. - int (count_list toks w)) (first_seen toks)"]
    by (simp add: assigned_def)
  then have r: "set assigned \<inter> fst ` set [(''<PAD>'', 0::int), (''<OOV>'', 1)] = {}"
    using corpus_token_not_reserved [of _ tk0 texts] unfolding toks_def by auto
  have i: "\<forall>i \<in> fst ` set [(0::int, ''<PAD>''), (1, ''<OOV>'')]. i < 2"
    by simp
  have a: "assign_ids assigned 2 (wordIndex tk0) (indexWord tk0) =
     ([(''<PAD>'', 0), (''<OOV>'', 1)] @ map (\<lambda>i. (assigned ! i, 2 + int i)) [0..<length assigned],
      [(0, ''<PAD>''), (1, ''<OOV>'')] @ map (\<lambda>i. (2 + int i, assigned ! i)) [0..<length assigned])"
    using assign_ids_fresh [OF d r i] by (simp add: tk0_def new_Tokenizer_def)
  show ?thesis
    unfolding fitOnTexts_def Let_def t a by simp
qed

text \<open>
  Counterexample to claim C6 as stated, in its two parts. With \<open>numWords = 1\<close> and
  the corpus \<open>["a"]\<close> (one distinct token), no token is assigned and \<open>vocabSize\<close>
  is 2, where \<open>2 + min(numWords - 2, distinct)\<close> is 1. And on a tokenizer that was
  fitted before (on \<open>["good movie"]\<close>), a fit on \<open>["movie bad"]\<close> keeps the keys
  of the first fit: \<open>good\<close> and \<open>movie\<close> both have id 2, and \<open>vocabSize\<close> is 5
  where \<open>2 + min(numWords - 2, distinct)\<close> is 4.
\<close>

theorem fitOnTexts_small_limit_and_refit:
  "vocabSize (fitOnTexts (new_Tokenizer (Some 1) None) [Some ''a'']) = Some 2 \<and>
   wordIndex (fitOnTexts (new_Tokenizer (Some 1) None) [Some ''a''])
     = [(''<PAD>'', 0), (''<OOV>'', 1)] \<and>
   corpus_tokens (new_Tokenizer (Some 1) None) [Some ''a''] = [''a''] \<and>
   2 + min (numWords (new_Tokenizer (Some 1) None) - 2)
         (int (card (set (corpus_tokens (new_Tokenizer (Some 1) None) [Some ''a''])))) = 1 \<and>
   vocabSize (fitOnTexts demo_tokenizer [Some ''movie bad'']) = Some 5 \<and>
   wordIndex (fitOnTexts demo_tokenizer [Some ''movie bad''])
     = [(''<PAD>'', 0), (''<OOV>'', 1), (''good'', 2), (''movie'', 2), (''bad'', 3)] \<and>
   corpus_tokens demo_tokenizer [Some ''movie bad''] = [''movie'', ''bad''] \<and>
   2 + min (numWords demo_tokenizer - 2)
         (int (card (set (corpus_tokens demo_tokenizer [Some ''movie bad''])))) = 4"
proof -
  have nw: "numWords (new_Tokenizer (Some 1) None) = 1"
    by (simp add: new_Tokenizer_def)
  have "normalize_text (new_Tokenizer (Some 1) None) (Some ''a'') = ''a''"
    by (simp add: normalize_text_def new_Tokenizer_def char_class_defs Let_def)
  then have t: "corpus_tokens (new_Tokenizer (Some 1) None) [Some ''a''] = [''a'']"
    by (simp add: corpus_tokens_def)
  have f: "fitOnTexts (new_Tokenizer (Some 1) None) [Some ''a''] =
      (new_Tokenizer (Some 1) None)
        \<lparr> wordIndex := [(''<PAD>'', 0), (''<OOV>'', 1)],
          indexWord := [(0, ''<PAD>''), (1, ''<OOV>'')],
          vocabSize := Some 2, fitted := True \<rparr>"
    using fitOnTexts_new [of "Some 1" None "[Some ''a'']"] by (simp add: nw)
  have r: "\<not> removeStopwords demo_tokenizer" by (simp add: demo_tokenizer)
  have n2: "normalize_text demo_tokenizer (Some ''movie bad'') = ''movie bad''"
    by (rule normalize_plain [OF r])
  have t2: "corpus_tokens demo_tokenizer [Some ''movie bad''] = [''movie'', ''bad'']"
    by (simp add: corpus_tokens_def n2)
  have f2: "fitOnTexts demo_tokenizer [Some ''movie bad''] =
     \<lparr> numWords = 20000, removeStopwords = False,
       wordIndex = [(''<PAD>'', 0), (''<OOV>'', 1), (''good'', 2), (''movie'', 2), (''bad'', 3)],
       indexWord = [(0, ''<PAD>''), (1, ''<OOV>''), (2, ''movie''), (3, ''bad'')],
       fitted = True, vocabSize = Some 5 \<rparr>"
    by (simp add: fitOnTexts_def word_freq_def count_text_def n2 freq_incr_def slice0_def Let_def)
       (simp add: demo_tokenizer)
  have nw2: "numWords demo_tokenizer = 20000" by (simp add: demo_tokenizer)
  show ?thesis
    by (simp add: f t nw f2 t2 nw2)
qed

text \<open>
  Claim C6, amended. After \<open>fitOnTexts\<close> on a newly constructed tokenizer (what a
  fit on a tokenizer that was fitted before leaves is not stated), for any corpus: the
  distinct tokens ranked by descending corpus frequency, ties in first-seen order
  (\<open>ranked\<close>: the frequencies never increase along it, and the tokens of equal
  frequency stand in it as they stand in first-seen order), get the ids 2, 3, ... in
  that order, in the forward and the inverse map; the number of assigned tokens is
  \<open>min(max(0, numWords - 2), number of distinct tokens)\<close>, and
  \<open>vocabSize = 2 + that count\<close>. With \<open>numWords = 5\<close> and ten distinct tokens,
  \<open>vocabSize\<close> is 5.
\<close>

theorem fitOnTexts_vocabulary:
  "(let tk0 = new_Tokenizer nw_arg rs_arg;
        tk = fitOnTexts tk0 texts;
        toks = corpus_tokens tk0 texts;
        k = nat (max 0 (numWords tk0 - 2));
        ranked = sort_key (\<lambda>w. - int (count_list toks w)) (first_seen toks);
        assigned = take k ranked
    in wordIndex tk = [(''<PAD>'', 0), (''<OOV>'', 1)]
                        @ map (\<lambda>i. (assigned ! i, 2 + int i)) [0..<length assigned] \<and>
       indexWord tk = [(0, ''<PAD>''), (1, ''<OOV>'')]
                        @ map (\<lambda>i. (2 + int i, assigned ! i)) [0..<length assigned] \<and>
       set ranked = set toks \<and> distinct ranked \<and>
       (\<forall>i j. i \<le> j \<and> j < length ranked \<longrightarrow>
              count_list toks (ranked ! j) \<le> count_list toks (ranked ! i)) \<and>
       (\<forall>c. filter (\<lambda>w. count_list toks w = c) ranked
              = filter (\<lambda>w. count_list toks w = c) (first_seen toks)) \<and>
       length assigned = min k (card (set toks)) \<and>
       vocabSize tk = Some (2 + length assigned) \<and>
       (numWords tk0 = 5 \<and> card (set toks) = 10 \<longrightarrow> vocabSize tk = Some 5))"
proof -
  define tk0 where "tk0 = new_Tokenizer nw_arg rs_arg"
  define toks where "toks = corpus_tokens tk0 texts"
  define k where "k = nat (max 0 (numWords tk0 - 2))"
  define ranked where "ranked = sort_key (\<lambda>w. - int (count_list toks w)) (first_seen toks)"
  define assigned where "assigned = take k ranked"
  have f: "fitOnTexts tk0 texts =
     tk0\<lparr> wordIndex := [(''<PAD>'', 0), (''<OOV>'', 1)]
                          @ map (\<lambda>i. (assigned ! i, 2 + int i)) [0..<length assigned],
          indexWord := [(0, ''<PAD>''), (1, ''<OOV>'')]
                          @ map (\<lambda>i. (2 + int i, assigned ! i)) [0..<length assigned],
          vocabSize := Some (2 + length assigned), fitted := True \<rparr>"
    unfolding tk0_def toks_def k_def ranked_def assigned_def by (rule fitOnTexts_new)
  have s: "sorted (map (\<lambda>w. - int (count_list toks w)) ranked)"
    unfolding ranked_def by (rule sorted_sort_key)
  have desc: "count_list toks (ranked ! j) \<le> count_list toks (ranked ! i)"
    if "i \<le> j" "j < length ranked" for i j
  proof -
    have "map (\<lambda>w. - int (count_list toks w)) ranked ! i
        \<le> map (\<lambda>w. - int (count_list toks w)) ranked ! j"
      using s that by (intro sorted_nth_mono) simp_all
    then show ?thesis using that by simp
  qed
  have st: "filter (\<lambda>w. count_list toks w = c) ranked
          = filter (\<lambda>w. count_list toks w = c) (first_seen toks)" for c
  proof -
    have "filter (\<lambda>w. - int (count_list toks w) = - int c) ranked
        = filter (\<lambda>w. - int (count_list toks w) = - int c) (first_seen toks)"
      unfolding ranked_def by (rule sort_key_stable)
    then show ?thesis by simp
  qed
  have l: "length assigned = min k (card (set toks))"
    by (simp add: assigned_def ranked_def length_first_seen min.commute)
  have v: "vocabSize (fitOnTexts tk0 texts) = Some (2 + length assigned)"
    by (simp add: f)
  have five: "vocabSize (fitOnTexts tk0 texts) = Some 5"
    if "numWords tk0 = 5" "card (set toks) = 10"
    using that v l by (simp add: k_def)
  show ?thesis
    unfolding Let_def tk0_def [symmetric] toks_def [symmetric] k_def [symmetric]
      ranked_def [symmetric] assigned_def [symmetric]
    using desc st l v five by (simp add: f ranked_def)
qed

lemma demo_corpus_tokens:
  "corpus_tokens (new_Tokenizer (Some 5) None) demo_corpus =
     [''a'', ''b'', ''c'', ''d'', ''e'', ''f'', ''g'', ''h'', ''i'', ''j'', ''b'', ''c'', ''b'']"
proof -
  have "normalize_text (new_Tokenizer (Some 5) None) (Some ''a b c d e f g h i j b c b'')
      = ''a b c d e f g h i j b c b''"
    by (simp add: normalize_text_def new_Tokenizer_def char_class_defs Let_def)
  then show ?thesis
    by (simp add: corpus_tokens_def demo_corpus_def)
qed

lemma demo_corpus_ranked:
  "sort_key (\<lambda>w. - int (count_list
       [''a'', ''b'', ''c'', ''d'', ''e'', ''f'', ''g'', ''h'', ''i'', ''j'', ''b'', ''c'', ''b''] w))
     (first_seen
       [''a'', ''b'', ''c'', ''d'', ''e'', ''f'', ''g'', ''h'', ''i'', ''j'', ''b'', ''c'', ''b''])
   = [''b'', ''c'', ''a'', ''d'', ''e'', ''f'', ''g'', ''h'', ''i'', ''j'']"
  by (simp add: first_seen_def)

theorem fitOnTexts_vocabulary_witness:
  "numWords (new_Tokenizer (Some 5) None) = 5 \<and>
   card (set (corpus_tokens (new_Tokenizer (Some 5) None) demo_corpus)) = 10 \<and>
   vocabSize (fitOnTexts (new_Tokenizer (Some 5) None) demo_corpus) = Some 5 \<and>
   wordIndex (fitOnTexts (new_Tokenizer (Some 5) None) demo_corpus)
     = [(''<PAD>'', 0), (''<OOV>'', 1), (''b'', 2), (''c'', 3), (''a'', 4)]"
proof -
  have nw: "numWords (new_Tokenizer (Some 5) None) = 5"
    by (simp add: new_Tokenizer_def)
  have c: "card (set (corpus_tokens (new_Tokenizer (Some 5) None) demo_corpus)) = 10"
  proof -
    have "length (first_seen (corpus_tokens (new_Tokenizer (Some 5) None) demo_corpus)) = 10"
      by (simp add: demo_corpus_tokens first_seen_def)
    then show ?thesis by (simp only: length_first_seen)
  qed
  note t = fitOnTexts_vocabulary [of "Some 5" None demo_corpus,
      unfolded Let_def demo_corpus_tokens demo_corpus_ranked nw]
  have w: "wordIndex (fitOnTexts (new_Tokenizer (Some 5) None) demo_corpus)
     = [(''<PAD>'', 0), (''<OOV>'', 1), (''b'', 2), (''c'', 3), (''a'', 4)]"
    using t [THEN conjunct1] by simp
  have v: "vocabSize (fitOnTexts (new_Tokenizer (Some 5) None) demo_corpus) = Some 5"
    using t c [unfolded demo_corpus_tokens] by blast
  show ?thesis
    using nw c w v by simp
qed

end
